theory Spec2Isabelle
  imports Main
begin

section \<open>JavaScript values and strings\<close>

text \<open>
  The values that occur as compile-time flags and as settings: booleans, numbers
  (only non-negative integers occur), strings, and \<open>undefined\<close>.
  A JavaScript string is modelled as a \<open>string\<close>, one \<open>char\<close> per code unit; code
  units above 255 are outside the model.
\<close>

datatype jsval = JUndefined | JBool bool | JNum nat | JStr string

text \<open>Decimal digits of a non-negative integer, as a template literal prints it.\<close>

fun digits :: "nat \<Rightarrow> string" where
  "digits n = (if n < 10 then [char_of (48 + n)] else digits (n div 10) @ [char_of (48 + n mod 10)])"

declare digits.simps [simp del]

section \<open>src/src/utils/discord.tsx\<close>

subsection \<open>getUniqueUsername\<close>

text \<open>The fields of the host's \<open>User\<close> object that the helper reads.\<close>

record User =
  username :: string
  discriminator :: string
  tag :: string

definition getUniqueUsername :: "User \<Rightarrow> string" where
  "getUniqueUsername user = (if discriminator user = ''0'' then username user else tag user)"

subsection \<open>Exceptions and truthiness\<close>

text \<open>A thrown \<open>Error\<close> or a rejected promise, with its message.\<close>

datatype JsError = Error string

text \<open>Truthiness of a value that is a string, \<open>null\<close> or \<open>undefined\<close>.\<close>

definition truthyString :: "string option \<Rightarrow> bool" where
  "truthyString v = (case v of None \<Rightarrow> False | Some s \<Rightarrow> s \<noteq> [])"

subsection \<open>sendMessage\<close>

text \<open>
  \<open>Partial<MessageObject>\<close>: each key may be absent (\<open>None\<close>). \<open>'e\<close> is the host's emoji
  object, \<open>'x\<close> the \<open>extra\<close> argument and \<open>'r\<close> whatever the host's
  \<open>MessageActions.sendMessage\<close> returns.
\<close>

record 'e PartialMessageObject =
  contentOpt :: "string option"
  invalidEmojisOpt :: "'e list option"
  ttsOpt :: "bool option"
  validNonShortcutEmojisOpt :: "'e list option"

record 'e MessageData =
  content :: string
  invalidEmojis :: "'e list"
  tts :: bool
  validNonShortcutEmojis :: "'e list"

text \<open>The object literal \<open>{ content: "", invalidEmojis: [], tts: false,
  validNonShortcutEmojis: [], ...data }\<close>: a key of \<open>data\<close> overrides the default.\<close>

definition messageData :: "'e PartialMessageObject \<Rightarrow> 'e MessageData" where
  "messageData data =
     \<lparr>content = (case contentOpt data of None \<Rightarrow> '''' | Some c \<Rightarrow> c),
      invalidEmojis = (case invalidEmojisOpt data of None \<Rightarrow> [] | Some es \<Rightarrow> es),
      tts = (case ttsOpt data of None \<Rightarrow> False | Some t \<Rightarrow> t),
      validNonShortcutEmojis = (case validNonShortcutEmojisOpt data of None \<Rightarrow> [] | Some es \<Rightarrow> es)\<rparr>"

definition sendMessage ::
  "(string \<Rightarrow> 'e MessageData \<Rightarrow> bool option \<Rightarrow> 'x option \<Rightarrow> 'r) \<Rightarrow>
   string \<Rightarrow> 'e PartialMessageObject \<Rightarrow> bool option \<Rightarrow> 'x option \<Rightarrow> 'r" where
  "sendMessage MessageActions_sendMessage channelId data waitForChannelReady extra =
     MessageActions_sendMessage channelId (messageData data) waitForChannelReady extra"

subsection \<open>openImageModal\<close>

text \<open>A rendered element: component name, props, children. A prop is a string, a
  boolean, an enum member of the host, or a function rendering the named component.\<close>

datatype propval = PStr string | PBool bool | PEnum string | PRender string

datatype element = Element string "string \<rightharpoonup> propval" "element list"

text \<open>The classes \<open>ModalImageClasses.modal\<close> and \<open>ModalImageClasses.image\<close> of the host
  (fields \<open>modalClass\<close> and \<open>imageClass\<close>).\<close>

record ModalImageClasses =
  modalClass :: string
  imageClass :: string

text \<open>The render function handed to \<open>openModal\<close>. In JSX a later attribute or spread
  overrides an earlier one.\<close>

definition imageModalRender ::
  "ModalImageClasses \<Rightarrow> string \<Rightarrow> (string \<rightharpoonup> propval) option \<Rightarrow> (string \<rightharpoonup> propval) \<Rightarrow> element" where
  "imageModalRender classes url props modalProps =
     Element ''ModalRoot''
       (modalProps ++ [''className'' \<mapsto> PStr (modalClass classes), ''size'' \<mapsto> PEnum ''ModalSize.DYNAMIC''])
       [Element ''ImageModal''
          ([''className'' \<mapsto> PStr (imageClass classes),
            ''original'' \<mapsto> PStr url,
            ''placeholder'' \<mapsto> PStr url,
            ''src'' \<mapsto> PStr url,
            ''renderLinkComponent'' \<mapsto> PRender ''MaskedLink'',
            ''shouldHideMediaOptions'' \<mapsto> PBool False,
            ''shouldAnimate'' \<mapsto> PBool True]
           ++ (case props of None \<Rightarrow> Map.empty | Some p \<Rightarrow> p))
          []]"

definition openImageModal ::
  "(((string \<rightharpoonup> propval) \<Rightarrow> element) \<Rightarrow> string) \<Rightarrow> ModalImageClasses \<Rightarrow>
   string \<Rightarrow> (string \<rightharpoonup> propval) option \<Rightarrow> string" where
  "openImageModal openModal classes url props = openModal (imageModalRender classes url props)"

subsection \<open>openUserProfile\<close>

text \<open>The argument of the host's \<open>openProfile\<close>.\<close>

record ProfileModalArgs =
  userId :: string
  guildId :: "string option"
  channelId :: "string option"
  analyticsPage :: string
  analyticsSection :: string

text \<open>
  \<open>fetchUser\<close> is \<open>UserUtils.fetchUser\<close> (a rejection is \<open>Inl\<close>, a \<open>null\<close> or
  \<open>undefined\<close> user is \<open>Inr None\<close>); \<open>selectedGuildId\<close> and \<open>selectedChannelId\<close> are what
  \<open>SelectedGuildStore.getGuildId()\<close> and \<open>SelectedChannelStore.getChannelId()\<close> return.
  The result is the exception thrown, or the argument of the one call of \<open>openProfile\<close>.
\<close>

definition openUserProfile ::
  "(string \<Rightarrow> JsError + 'u option) \<Rightarrow> string option \<Rightarrow> string option \<Rightarrow> string \<Rightarrow>
   JsError + ProfileModalArgs" where
  "openUserProfile fetchUser selectedGuildId selectedChannelId uid =
     (case fetchUser uid of
        Inl e \<Rightarrow> Inl e
      | Inr None \<Rightarrow> Inl (Error (''No such user: '' @ uid))
      | Inr (Some user) \<Rightarrow>
          Inr \<lparr>userId = uid,
               guildId = selectedGuildId,
               channelId = selectedChannelId,
               analyticsPage = (if truthyString selectedGuildId then ''Guild Channel'' else ''DM Channel''),
               analyticsSection = ''Profile Popout''\<rparr>)"

subsection \<open>fetchUserProfile\<close>

record FetchUserProfileOptions =
  friend_token :: "string option"
  connections_role_id :: "string option"
  guild_id :: "string option"
  with_mutual_guilds :: "bool option"
  with_mutual_friends_count :: "bool option"

text \<open>The \<open>query\<close> object \<open>{ with_mutual_guilds: false, with_mutual_friends_count: false,
  ...options }\<close>.\<close>

record ProfileQuery =
  query_with_mutual_guilds :: bool
  query_with_mutual_friends_count :: bool
  query_friend_token :: "string option"
  query_connections_role_id :: "string option"
  query_guild_id :: "string option"

record RestRequest =
  url :: string
  query :: ProfileQuery
  oldFormErrors :: bool

text \<open>The response body: \<open>'a\<close> stands for the host's opaque objects.\<close>

record 'a ProfileBody =
  body_user :: 'a
  body_guild_member :: "'a option"
  body_rest :: 'a

datatype 'a FluxEvent =
    USER_PROFILE_FETCH_START string
  | USER_UPDATE 'a
  | USER_PROFILE_FETCH_SUCCESS "'a ProfileBody"
  | GUILD_MEMBER_PROFILE_UPDATE string 'a

text \<open>
  The observable state of the host: the contents of \<open>UserProfileStore\<close>, and the calls of
  \<open>FluxDispatcher.dispatch\<close> and \<open>RestAPI.get\<close> made so far.
\<close>

record 'a Discord =
  profiles :: "string \<rightharpoonup> 'a"
  dispatched :: "'a FluxEvent list"
  requested :: "RestRequest list"

text \<open>
  The host's behaviour, a parameter: how \<open>UserProfileStore\<close> reacts to a dispatched event,
  and what \<open>RestAPI.get\<close> answers (\<open>Inl\<close> is a rejection).
\<close>

record 'a Host =
  onDispatch :: "'a FluxEvent \<Rightarrow> (string \<rightharpoonup> 'a) \<Rightarrow> (string \<rightharpoonup> 'a)"
  respond :: "RestRequest \<Rightarrow> JsError + 'a ProfileBody"

definition dispatch :: "'a Host \<Rightarrow> 'a FluxEvent \<Rightarrow> 'a Discord \<Rightarrow> 'a Discord" where
  "dispatch host ev st =
     st\<lparr>profiles := onDispatch host ev (profiles st), dispatched := dispatched st @ [ev]\<rparr>"

definition profileQuery :: "FetchUserProfileOptions option \<Rightarrow> ProfileQuery" where
  "profileQuery options =
     (case options of
        None \<Rightarrow>
          \<lparr>query_with_mutual_guilds = False, query_with_mutual_friends_count = False,
           query_friend_token = None, query_connections_role_id = None, query_guild_id = None\<rparr>
      | Some opts \<Rightarrow>
          \<lparr>query_with_mutual_guilds = (case with_mutual_guilds opts of None \<Rightarrow> False | Some b \<Rightarrow> b),
           query_with_mutual_friends_count =
             (case with_mutual_friends_count opts of None \<Rightarrow> False | Some b \<Rightarrow> b),
           query_friend_token = friend_token opts,
           query_connections_role_id = connections_role_id opts,
           query_guild_id = guild_id opts\<rparr>)"

definition profileRequest :: "string \<Rightarrow> FetchUserProfileOptions option \<Rightarrow> RestRequest" where
  "profileRequest uid options =
     \<lparr>url = ''/users/'' @ uid @ ''/profile'', query = profileQuery options, oldFormErrors = True\<rparr>"

text \<open>\<open>options?.guild_id\<close>.\<close>

definition optionsGuildId :: "FetchUserProfileOptions option \<Rightarrow> string option" where
  "optionsGuildId options = (case options of None \<Rightarrow> None | Some opts \<Rightarrow> guild_id opts)"

text \<open>
  The result is what the promise settles to (\<open>Inl\<close> a rejection, \<open>Inr\<close> the value of
  \<open>UserProfileStore.getUserProfile(id)\<close>), with the host state afterwards.
\<close>

definition fetchUserProfile ::
  "'a Host \<Rightarrow> string \<Rightarrow> FetchUserProfileOptions option \<Rightarrow> 'a Discord \<Rightarrow>
   (JsError + 'a option) \<times> 'a Discord" where
  "fetchUserProfile host uid options st =
     (case profiles st uid of
        Some cached \<Rightarrow> (Inr (Some cached), st)
      | None \<Rightarrow>
          (let st1 = dispatch host (USER_PROFILE_FETCH_START uid) st;
               st2 = st1\<lparr>requested := requested st1 @ [profileRequest uid options]\<rparr>
           in case respond host (profileRequest uid options) of
                Inl e \<Rightarrow> (Inl e, st2)
              | Inr body \<Rightarrow>
                  (let st3 = dispatch host (USER_UPDATE (body_user body)) st2;
                       st4 = dispatch host (USER_PROFILE_FETCH_SUCCESS body) st3;
                       st5 = (case (optionsGuildId options, body_guild_member body) of
                                (Some gid, Some member) \<Rightarrow>
                                  (if gid \<noteq> [] then dispatch host (GUILD_MEMBER_PROFILE_UPDATE gid member) st4
                                   else st4)
                              | _ \<Rightarrow> st4)
                   in (Inr (profiles st5 uid), st5))))"

section \<open>src/src/plugins/oneko.ts: AnonymiseFileNames\<close>

datatype Methods = Random | Consistent | Timestamp

text \<open>
  \<open>Settings.plugins.AnonymiseFileNames\<close>. The stored \<open>method\<close> (field \<open>methodSetting\<close>) is \<open>None\<close> when it is none
  of the three enum values (the \<open>switch\<close> then has no matching case).
\<close>

record AnonymiseSettings =
  methodSetting :: "Methods option"
  randomisedLength :: nat
  consistent :: string

text \<open>
  What \<open>anonymise\<close> reads from its environment: the \<open>k\<close>-th value of
  \<open>Math.floor(Math.random() * chars.length)\<close>, the value of \<open>Date.now()\<close> and the value of
  \<open>Math.floor(window.performance.now())\<close>.
\<close>

record AnonymiseEnv =
  randomIndex :: "nat \<Rightarrow> nat"
  dateNow :: nat
  performanceNowFloor :: nat

text \<open>\<open>\w\<close> without the unicode and ignore-case flags: \<open>[A-Za-z0-9_]\<close>.\<close>

definition isWordChar :: "char \<Rightarrow> bool" where
  "isWordChar c =
     (let n = of_char c :: nat
      in (65 \<le> n \<and> n \<le> 90) \<or> (97 \<le> n \<and> n \<le> 122) \<or> (48 \<le> n \<and> n \<le> 57) \<or> n = 95)"

text \<open>
  \<open>/\.tar\.\w+$/\<close> tried at the head of \<open>s\<close>: the literal \<open>.tar.\<close>, then one or more
  word characters, then the end of the input (no multiline flag).
\<close>

definition tarExtMatchesHere :: "string \<Rightarrow> bool" where
  "tarExtMatchesHere s =
     (take 5 s = ''.tar.'' \<and> drop 5 s \<noteq> [] \<and> list_all isWordChar (drop 5 s))"

text \<open>
  \<open>tarExtMatcher.exec(file)\<close>: the index of the leftmost position where the pattern
  matches, \<open>None\<close> for a \<open>null\<close> result. The first argument is the index of the head of
  the remaining input.
\<close>

fun tarExtMatcherExecFrom :: "nat \<Rightarrow> string \<Rightarrow> nat option" where
  "tarExtMatcherExecFrom i [] = None"
| "tarExtMatcherExecFrom i (c # cs) =
     (if tarExtMatchesHere (c # cs) then Some i else tarExtMatcherExecFrom (Suc i) cs)"

definition tarExtMatcherExec :: "string \<Rightarrow> nat option" where
  "tarExtMatcherExec file = tarExtMatcherExecFrom 0 file"

text \<open>\<open>String.prototype.lastIndexOf\<close> for a one-character needle: \<open>-1\<close> when absent.\<close>

definition lastIndexOf :: "string \<Rightarrow> char \<Rightarrow> int" where
  "lastIndexOf s c =
     (case filter (\<lambda>i. s ! i = c) (rev [0..<length s]) of
        [] \<Rightarrow> - 1
      | i # _ \<Rightarrow> int i)"

text \<open>\<open>String.prototype.slice\<close> with one argument: a negative start counts from the end.\<close>

definition slice :: "string \<Rightarrow> int \<Rightarrow> string" where
  "slice s i = (if i < 0 then drop (nat (int (length s) + i)) s else drop (nat i) s)"

definition chars :: string where
  "chars = ''ABCDEFGHIJKLMNOPQRSTUVWXYZabcdefghijklmnopqrstuvwxyz0123456789''"

text \<open>\<open>chars[i]\<close> joined with \<open>""\<close>: an index out of range reads \<open>undefined\<close>, which
  \<open>join\<close> prints as the empty string.\<close>

definition charAtJoined :: "string \<Rightarrow> nat \<Rightarrow> string" where
  "charAtJoined s i = (if i < length s then [s ! i] else [])"

text \<open>The \<open>switch\<close> of \<open>anonymise\<close>: the new base name, \<open>"image"\<close> when no case matches.\<close>

definition anonymiseName :: "AnonymiseSettings \<Rightarrow> AnonymiseEnv \<Rightarrow> string" where
  "anonymiseName settings env =
     (case methodSetting settings of
        Some Random \<Rightarrow>
          concat (map (\<lambda>k. charAtJoined chars (randomIndex env k)) [0..<randomisedLength settings])
      | Some Consistent \<Rightarrow> consistent settings
      | Some Timestamp \<Rightarrow> digits (dateNow env div 1000) @ digits (performanceNowFloor env)
      | None \<Rightarrow> ''image'')"

definition anonymiseExt :: "string \<Rightarrow> string" where
  "anonymiseExt file =
     (let tarMatch = tarExtMatcherExec file;
          extIdx = (case tarMatch of Some i \<Rightarrow> int i | None \<Rightarrow> lastIndexOf file (CHR ''.''))
      in if extIdx \<noteq> - 1 then slice file extIdx else '''')"

definition anonymise :: "AnonymiseSettings \<Rightarrow> AnonymiseEnv \<Rightarrow> string \<Rightarrow> string" where
  "anonymise settings env file = anonymiseName settings env @ anonymiseExt file"

section \<open>src/src/plugins/oneko.ts: the plugin declarations\<close>

text \<open>
  The part of the browser that the hooks of \<open>oneko\<close> touch: \<open>window.onekoInterval\<close>
  (\<open>None\<close> when the property is absent), the running interval timers, the ids of the
  elements of the document in document order, and the URLs requested with \<open>fetch\<close>.
\<close>

record Window =
  onekoInterval :: "nat option"
  intervals :: "nat list"
  elementIds :: "string list"
  fetched :: "string list"

text \<open>A lifecycle hook: the exception it throws, if any, and the state it leaves.\<close>

type_synonym 'w hook = "'w \<Rightarrow> JsError option \<times> 'w"

text \<open>
  \<open>start\<close> requests the script and returns; what the promise chain does with the
  response happens later and is not part of the call.
\<close>

definition onekoStart :: "Window hook" where
  "onekoStart w =
     (None,
      w\<lparr>fetched := fetched w @
         [''https://raw.githubusercontent.com/adryd325/oneko.js/5977144dce83e4d71af1de005d16e38eebeb7b72/oneko.js'']\<rparr>)"

text \<open>
  \<open>stop\<close>: \<open>clearInterval\<close> of an absent or unknown id does nothing, \<open>delete\<close> removes the
  property, and \<open>getElementById("oneko")?.remove()\<close> removes the first element with
  that id, if there is one.
\<close>

definition onekoStop :: "Window hook" where
  "onekoStop w =
     (None,
      w\<lparr>intervals := (case onekoInterval w of None \<Rightarrow> intervals w | Some t \<Rightarrow> removeAll t (intervals w)),
        onekoInterval := None,
        elementIds := remove1 ''oneko'' (elementIds w)\<rparr>)"

text \<open>A source patch: the \<open>find\<close> string, and the source of the \<open>match\<close> regular
  expression with its \<open>replace\<close> string.\<close>

record Patch =
  patch_find :: string
  patch_match :: string
  patch_replace :: string

datatype OptionType = STRING | NUMBER | SELECT

record SelectChoice =
  choice_label :: string
  choice_value :: Methods
  choice_default :: bool

text \<open>One entry of the option schema; \<open>disabled\<close> reads the current settings.\<close>

record OptionDef =
  opt_description :: string
  opt_type :: OptionType
  opt_choices :: "SelectChoice list"
  opt_default :: "jsval option"
  opt_disabled :: "(AnonymiseSettings \<Rightarrow> bool) option"

text \<open>
  The object handed to \<open>definePlugin\<close>: every key of the literal is a field that is
  \<open>None\<close> when the literal does not have the key. Authors are named by their key in
  \<open>Devs\<close>.
\<close>

record PluginDeclaration =
  plugin_name :: "string option"
  plugin_description :: "string option"
  plugin_authors :: "string list option"
  plugin_patches :: "Patch list option"
  plugin_options :: "(string \<times> OptionDef) list option"
  plugin_start :: "Window hook option"
  plugin_stop :: "Window hook option"

definition onekoPlugin :: PluginDeclaration where
  "onekoPlugin =
     \<lparr>plugin_name = Some ''oneko'',
      plugin_description = Some ''cat follow mouse (real)'',
      plugin_authors = Some [''Ven'', ''adryd''],
      plugin_patches = None,
      plugin_options = None,
      plugin_start = Some onekoStart,
      plugin_stop = Some onekoStop\<rparr>"

definition anonymiseFileNamesPlugin :: PluginDeclaration where
  "anonymiseFileNamesPlugin =
     \<lparr>plugin_name = Some ''AnonymiseFileNames'',
      plugin_description = Some ''Anonymise uploaded file names'',
      plugin_authors = Some [''obscurity''],
      plugin_patches =
        Some [\<lparr>patch_find = ''instantBatchUpload:function'',
               patch_match = ''uploadFiles:(.{1,2}),'',
               patch_replace =
                 ''uploadFiles:(...args)=>(args[0].uploads.forEach(f=>f.filename=$self.anonymise(f.filename)),$1(...args)),''\<rparr>],
      plugin_options =
        Some [(''method'',
               \<lparr>opt_description = ''Anonymising method'', opt_type = SELECT,
                opt_choices =
                  [\<lparr>choice_label = ''Random Characters'', choice_value = Random, choice_default = True\<rparr>,
                   \<lparr>choice_label = ''Consistent'', choice_value = Consistent, choice_default = False\<rparr>,
                   \<lparr>choice_label = ''Timestamp (4chan-like)'', choice_value = Timestamp, choice_default = False\<rparr>],
                opt_default = None, opt_disabled = None\<rparr>),
              (''randomisedLength'',
               \<lparr>opt_description = ''Random characters length'', opt_type = NUMBER, opt_choices = [],
                opt_default = Some (JNum 7),
                opt_disabled = Some (\<lambda>settings. methodSetting settings \<noteq> Some Random)\<rparr>),
              (''consistent'',
               \<lparr>opt_description = ''Consistent filename'', opt_type = STRING, opt_choices = [],
                opt_default = Some (JStr ''image''),
                opt_disabled = Some (\<lambda>settings. methodSetting settings \<noteq> Some Consistent)\<rparr>)],
      plugin_start = None,
      plugin_stop = None\<rparr>"

text \<open>The declarations of the file, in order.\<close>

definition pluginDeclarations :: "PluginDeclaration list" where
  "pluginDeclarations = [onekoPlugin, anonymiseFileNamesPlugin]"

text \<open>A declaration supplies a name, a description and an authors list.\<close>

definition suppliesMetadata :: "PluginDeclaration \<Rightarrow> bool" where
  "suppliesMetadata p =
     (plugin_name p \<noteq> None \<and> plugin_description p \<noteq> None \<and> plugin_authors p \<noteq> None)"

subsection \<open>Running the lifecycle hooks\<close>

text \<open>
  Modelled from the spec: the plugin manager that calls the \<open>start\<close> and \<open>stop\<close> hooks
  of a plugin is not among the sources. The specification says: a plugin that throws
  during \<open>start\<close>/\<open>stop\<close> is caught and reported to the user via a log/notification.
  A report names the plugin, the hook and the exception. The result is \<open>Inl\<close> when an
  exception leaves the manager, and otherwise whether the hook succeeded, the state
  after it and the reports so far. A plugin without the hook has nothing to run.
\<close>

record Report =
  report_plugin :: string
  report_hook :: string
  report_error :: JsError

definition runHook ::
  "string \<Rightarrow> string \<Rightarrow> 'w hook option \<Rightarrow> 'w \<Rightarrow> Report list \<Rightarrow> JsError + bool \<times> 'w \<times> Report list" where
  "runHook pluginName hookName hook w reports =
     (case hook of
        None \<Rightarrow> Inr (True, w, reports)
      | Some h \<Rightarrow>
          (case h w of
             (None, w') \<Rightarrow> Inr (True, w', reports)
           | (Some e, w') \<Rightarrow>
               Inr (False, w',
                    reports @ [\<lparr>report_plugin = pluginName, report_hook = hookName, report_error = e\<rparr>])))"

definition pluginNameOf :: "PluginDeclaration \<Rightarrow> string" where
  "pluginNameOf p = (case plugin_name p of None \<Rightarrow> '''' | Some n \<Rightarrow> n)"

definition startPlugin ::
  "PluginDeclaration \<Rightarrow> Window \<Rightarrow> Report list \<Rightarrow> JsError + bool \<times> Window \<times> Report list" where
  "startPlugin p w reports = runHook (pluginNameOf p) ''start'' (plugin_start p) w reports"

definition stopPlugin ::
  "PluginDeclaration \<Rightarrow> Window \<Rightarrow> Report list \<Rightarrow> JsError + bool \<times> Window \<times> Report list" where
  "stopPlugin p w reports = runHook (pluginNameOf p) ''stop'' (plugin_stop p) w reports"

text \<open>A plugin whose \<open>stop\<close> hook throws, as an input for the manager.\<close>

definition throwingPlugin :: PluginDeclaration where
  "throwingPlugin =
     \<lparr>plugin_name = Some ''Throws'',
      plugin_description = Some ''throws in stop'',
      plugin_authors = Some [''Ven''],
      plugin_patches = None,
      plugin_options = None,
      plugin_start = Some (\<lambda>w. (Some (Error ''start failed''), w)),
      plugin_stop = Some (\<lambda>w. (Some (Error ''stop failed''), w\<lparr>onekoInterval := None\<rparr>))\<rparr>"

definition emptyWindow :: Window where
  "emptyWindow = \<lparr>onekoInterval = None, intervals = [], elementIds = [], fetched = []\<rparr>"

section \<open>JSON.stringify\<close>

text \<open>
  \<open>JSON.stringify\<close> on a boolean, on a non-negative integer and on a string whose code
  units are below 256: quotes and backslashes are escaped, control characters are
  written with their short escape or as \<open>\u00XX\<close>.
\<close>

definition stringifyBool :: "bool \<Rightarrow> string" where
  "stringifyBool b = (if b then ''true'' else ''false'')"

definition stringifyNumber :: "nat \<Rightarrow> string" where
  "stringifyNumber n = digits n"

definition hexDigit :: "nat \<Rightarrow> char" where
  "hexDigit n = ''0123456789abcdef'' ! (n mod 16)"

definition escapeChar :: "char \<Rightarrow> string" where
  "escapeChar c =
     (let n = of_char c :: nat
      in if n = 34 then [CHR 0x5C, CHR 0x22]
         else if n = 92 then [CHR 0x5C, CHR 0x5C]
         else if n = 8 then [CHR 0x5C, CHR ''b'']
         else if n = 12 then [CHR 0x5C, CHR ''f'']
         else if n = 10 then [CHR 0x5C, CHR ''n'']
         else if n = 13 then [CHR 0x5C, CHR ''r'']
         else if n = 9 then [CHR 0x5C, CHR ''t'']
         else if n < 32 then [CHR 0x5C, CHR ''u'', CHR ''0'', CHR ''0'', hexDigit (n div 16), hexDigit n]
         else [c])"

definition stringifyString :: "string \<Rightarrow> string" where
  "stringifyString s = CHR 0x22 # concat (map escapeChar s) @ [CHR 0x22]"

definition newline :: string where
  "newline = [CHR 0x0A]"

section \<open>src/scripts/build: esbuild options\<close>

text \<open>An esbuild plugin: the script's own \<open>globNativesPlugin\<close>, the result of
  \<open>globPlugins(kind)\<close> of common.mjs, or a plugin that the common options bring.\<close>

datatype Plugin = GlobNativesPlugin | GlobPlugins string | CommonPlugin string

text \<open>
  \<open>esbuild.BuildOptions\<close>: every key is optional. The keys that the scripts set are fields
  (\<open>defineKey\<close> is the key \<open>define\<close>, \<open>footer_js\<close> is \<open>footer.js\<close>); the other keys
  of the common options stay in the record's extension. An object literal
  \<open>{ ...base, key: value }\<close> is the record update of \<open>base\<close>.
\<close>

record BuildOptions =
  entryPoints :: "string list option"
  outfile :: "string option"
  format :: "string option"
  platform :: "string option"
  target :: "string list option"
  external :: "string list option"
  defineKey :: "(string \<rightharpoonup> jsval) option"
  footer_js :: "string option"
  sourcemap :: "string option"
  globalName :: "string option"
  plugins :: "Plugin list option"

text \<open>What both scripts import from common.mjs or read from the process.\<close>

record Common =
  VERSION :: string
  BUILD_TIMESTAMP :: nat
  watch :: bool
  process_platform :: string

subsection \<open>build.mts\<close>

record 'z CommonMts = Common +
  IS_STANDALONE :: bool
  IS_DEV :: bool
  IS_REPORTER :: bool
  IS_UPDATER_DISABLED :: bool
  buildOpts :: "'z BuildOptions_scheme"

text \<open>The object \<open>defines\<close> after the conditional assignment of \<open>process.platform\<close>.\<close>

definition definesMts :: "('z, 'y) CommonMts_scheme \<Rightarrow> (string \<rightharpoonup> jsval)" where
  "definesMts c =
     (let defines =
        [''IS_STANDALONE'' \<mapsto> JStr (stringifyBool (IS_STANDALONE c)),
         ''IS_DEV'' \<mapsto> JStr (stringifyBool (IS_DEV c)),
         ''IS_REPORTER'' \<mapsto> JStr (stringifyBool (IS_REPORTER c)),
         ''IS_UPDATER_DISABLED'' \<mapsto> JStr (stringifyBool (IS_UPDATER_DISABLED c)),
         ''IS_WEB'' \<mapsto> JStr (stringifyBool False),
         ''IS_EXTENSION'' \<mapsto> JStr (stringifyBool False),
         ''VERSION'' \<mapsto> JStr (stringifyString (VERSION c)),
         ''BUILD_TIMESTAMP'' \<mapsto> JStr (stringifyNumber (BUILD_TIMESTAMP c))]
      in if defines ''IS_STANDALONE'' = Some (JStr ''false'')
         then defines(''process.platform'' \<mapsto> JStr (stringifyString (process_platform c)))
         else defines)"

text \<open>\<open>x ?? []\<close> for an optional array.\<close>

definition orEmpty :: "'a list option \<Rightarrow> 'a list" where
  "orEmpty xs = (case xs of None \<Rightarrow> [] | Some ys \<Rightarrow> ys)"

definition nodeBuildOpts :: "('z, 'y) CommonMts_scheme \<Rightarrow> 'z BuildOptions_scheme" where
  "nodeBuildOpts c =
     (buildOpts c)
       \<lparr>format := Some ''cjs'',
        platform := Some ''node'',
        target := Some [''esnext''],
        external := Some ([''electron'', ''original-fs'', ''~pluginNatives''] @ orEmpty (external (buildOpts c))),
        defineKey := Some (definesMts c)\<rparr>"

definition sourceMapFooter :: "'y Common_scheme \<Rightarrow> string \<Rightarrow> string" where
  "sourceMapFooter c s = (if watch c then '''' else ''//# sourceMappingURL=vencord://'' @ s @ ''.js.map'')"

definition sourcemapValue :: "'y Common_scheme \<Rightarrow> string" where
  "sourcemapValue c = (if watch c then ''inline'' else ''external'')"

text \<open>\<open>{ ...defines, IS_DISCORD_DESKTOP: ..., IS_VESKTOP: ... }\<close> with both values
  passed through \<open>JSON.stringify\<close>.\<close>

definition hostDefinesMts :: "('z, 'y) CommonMts_scheme \<Rightarrow> bool \<Rightarrow> bool \<Rightarrow> (string \<rightharpoonup> jsval)" where
  "hostDefinesMts c discordDesktop vesktop =
     (definesMts c)
       (''IS_DISCORD_DESKTOP'' \<mapsto> JStr (stringifyBool discordDesktop),
        ''IS_VESKTOP'' \<mapsto> JStr (stringifyBool vesktop))"

definition buildOptions :: "('z, 'y) CommonMts_scheme \<Rightarrow> 'z BuildOptions_scheme list" where
  "buildOptions c =
     [(nodeBuildOpts c)
        \<lparr>entryPoints := Some [''src/main/index.ts''],
         outfile := Some ''dist/patcher.js'',
         footer_js := Some (''//# sourceURL=VencordPatcher'' @ newline @ sourceMapFooter c ''patcher''),
         sourcemap := Some (sourcemapValue c),
         defineKey := Some (hostDefinesMts c True False),
         plugins := Some (orEmpty (plugins (nodeBuildOpts c)) @ [GlobNativesPlugin])\<rparr>,
      (buildOpts c)
        \<lparr>entryPoints := Some [''src/Vencord.ts''],
         outfile := Some ''dist/renderer.js'',
         format := Some ''iife'',
         target := Some [''esnext''],
         footer_js := Some (''//# sourceURL=VencordRenderer'' @ newline @ sourceMapFooter c ''renderer''),
         globalName := Some ''Vencord'',
         sourcemap := Some (sourcemapValue c),
         plugins := Some (GlobPlugins ''discordDesktop'' # orEmpty (plugins (buildOpts c))),
         defineKey := Some (hostDefinesMts c True False)\<rparr>,
      (nodeBuildOpts c)
        \<lparr>entryPoints := Some [''src/preload.ts''],
         outfile := Some ''dist/preload.js'',
         footer_js := Some (''//# sourceURL=VencordPreload'' @ newline @ sourceMapFooter c ''preload''),
         sourcemap := Some (sourcemapValue c),
         defineKey := Some (hostDefinesMts c True False)\<rparr>,
      (nodeBuildOpts c)
        \<lparr>entryPoints := Some [''src/main/index.ts''],
         outfile := Some ''dist/vencordDesktopMain.js'',
         footer_js := Some (''//# sourceURL=VencordDesktopMain'' @ newline @ sourceMapFooter c ''vencordDesktopMain''),
         sourcemap := Some (sourcemapValue c),
         defineKey := Some (hostDefinesMts c False True),
         plugins := Some (orEmpty (plugins (nodeBuildOpts c)) @ [GlobNativesPlugin])\<rparr>,
      (buildOpts c)
        \<lparr>entryPoints := Some [''src/Vencord.ts''],
         outfile := Some ''dist/vencordDesktopRenderer.js'',
         format := Some ''iife'',
         target := Some [''esnext''],
         footer_js := Some (''//# sourceURL=VencordDesktopRenderer'' @ newline
                            @ sourceMapFooter c ''vencordDesktopRenderer''),
         globalName := Some ''Vencord'',
         sourcemap := Some (sourcemapValue c),
         plugins := Some (GlobPlugins ''vencordDesktop'' # orEmpty (plugins (buildOpts c))),
         defineKey := Some (hostDefinesMts c False True)\<rparr>,
      (nodeBuildOpts c)
        \<lparr>entryPoints := Some [''src/preload.ts''],
         outfile := Some ''dist/vencordDesktopPreload.js'',
         footer_js := Some (''//# sourceURL=VencordPreload'' @ newline @ sourceMapFooter c ''vencordDesktopPreload''),
         sourcemap := Some (sourcemapValue c),
         defineKey := Some (hostDefinesMts c False True)\<rparr>]"

text \<open>
  The builds that build.mts starts: one context per element of \<open>buildOptions\<close>
  (\<open>buildOptions.map(makeContextPromise)\<close>), and for the context at index \<open>buildIndex\<close> a
  build with \<open>buildOptions[buildIndex]\<close>.
\<close>

definition buildsMts :: "('z, 'y) CommonMts_scheme \<Rightarrow> 'z BuildOptions_scheme list" where
  "buildsMts c = map (\<lambda>buildIndex. buildOptions c ! buildIndex) [0..<length (buildOptions c)]"

subsection \<open>build.mts: globNativesPlugin\<close>

text \<open>
  A directory entry as \<open>readdir(..., { withFileTypes: true })\<close> returns it, and the
  functions the plugin calls: \<open>exists\<close> and \<open>resolvePluginName\<close> of common.mjs and
  \<open>readdir\<close> of \<open>fs/promises\<close>, over one snapshot of the file system.
\<close>

record Dirent =
  dirent_name :: string
  dirent_isDirectory :: bool

record ScanEnv =
  exists :: "string \<Rightarrow> bool"
  readdir :: "string \<Rightarrow> Dirent list"
  resolvePluginName :: "string \<Rightarrow> Dirent \<Rightarrow> string"

text \<open>
  \<open>path.join\<close> on POSIX for segments that need no normalisation (non-empty, without
  \<open>.\<close> or \<open>..\<close> components): the segments joined by \<open>/\<close>.
\<close>

fun joinPath :: "string list \<Rightarrow> string" where
  "joinPath [] = ''.''"
| "joinPath [s] = s"
| "joinPath (s # t) = s @ ''/'' @ joinPath t"

definition quote :: string where
  "quote = [CHR 0x22]"

text \<open>\<open>build.onResolve\<close>: the filter \<open>/^~pluginNatives$/\<close> accepts exactly this path.\<close>

definition onResolve :: "string \<Rightarrow> (string \<times> string) option" where
  "onResolve path = (if path = ''~pluginNatives'' then Some (''import-natives'', path) else None)"

text \<open>
  The inner loop over the entries of one plugin directory. The state is
  \<open>(code, natives, i)\<close>; \<open>mod'\<close> is the source's \<open>mod\<close>.
\<close>

fun scanFiles :: "ScanEnv \<Rightarrow> string \<Rightarrow> Dirent list \<Rightarrow> string \<times> string \<times> nat \<Rightarrow> string \<times> string \<times> nat" where
  "scanFiles env dir [] (code, natives, i) = (code, natives, i)"
| "scanFiles env dir (file # rest) (code, natives, i) =
     (let dirPath = joinPath [''src'', dir];
          fileName = dirent_name file;
          nativePath = joinPath [dirPath, fileName, ''native.ts''];
          indexNativePath = joinPath [dirPath, fileName, ''native/index.ts'']
      in if \<not> exists env nativePath \<and> \<not> exists env indexNativePath
         then scanFiles env dir rest (code, natives, i)
         else
           (let pluginName = resolvePluginName env dirPath file;
                mod' = ''p'' @ digits i
            in scanFiles env dir rest
                 (code @ ''import * as '' @ mod' @ '' from '' @ quote @ ''./'' @ dir @ ''/'' @ fileName
                       @ ''/native'' @ quote @ '';'' @ newline,
                  natives @ stringifyString pluginName @ '':'' @ mod' @ '','' @ newline,
                  i + 1)))"

text \<open>The outer loop over \<open>pluginDirs\<close>: a directory that does not exist is skipped.\<close>

fun scanDirs :: "ScanEnv \<Rightarrow> string list \<Rightarrow> string \<times> string \<times> nat \<Rightarrow> string \<times> string \<times> nat" where
  "scanDirs env [] acc = acc"
| "scanDirs env (dir # dirs) acc =
     (let dirPath = joinPath [''src'', dir]
      in if \<not> exists env dirPath then scanDirs env dirs acc
         else scanDirs env dirs (scanFiles env dir (readdir env dirPath) acc))"

record OnLoadResult =
  contents :: string
  resolveDir :: string

definition globNativesOnLoad :: "ScanEnv \<Rightarrow> OnLoadResult" where
  "globNativesOnLoad env =
     (let pluginDirs = [''plugins'', ''userplugins''];
          (code, natives, i) = scanDirs env pluginDirs ('''', newline, 0)
      in \<lparr>contents = code @ ''export default {'' @ natives @ ''};'', resolveDir = ''./src''\<rparr>)"

subsection \<open>The manifest, as the specification describes it\<close>

text \<open>A plugin directory has a native module when it contains \<open>native.ts\<close> or
  \<open>native/index.ts\<close>.\<close>

definition hasNative :: "ScanEnv \<Rightarrow> string \<Rightarrow> Dirent \<Rightarrow> bool" where
  "hasNative env dir file =
     (exists env (''src/'' @ dir @ ''/'' @ dirent_name file @ ''/native.ts'') \<or>
      exists env (''src/'' @ dir @ ''/'' @ dirent_name file @ ''/native/index.ts''))"

text \<open>The entries that one directory of \<open>pluginDirs\<close> contributes.\<close>

definition dirEntries :: "ScanEnv \<Rightarrow> string \<Rightarrow> (string \<times> Dirent) list" where
  "dirEntries env dir =
     (if exists env (''src/'' @ dir)
      then map (Pair dir) (filter (hasNative env dir) (readdir env (''src/'' @ dir)))
      else [])"

text \<open>The plugin directories with a native module, in scan order: those of
  \<open>src/plugins\<close>, then those of \<open>src/userplugins\<close>, each only when it exists.\<close>

definition nativePluginDirs :: "ScanEnv \<Rightarrow> (string \<times> Dirent) list" where
  "nativePluginDirs env =
     concat (map (\<lambda>dir. if exists env (''src/'' @ dir)
                         then map (Pair dir) (filter (hasNative env dir) (readdir env (''src/'' @ dir)))
                         else [])
               [''plugins'', ''userplugins''])"

definition importLine :: "nat \<times> string \<times> Dirent \<Rightarrow> string" where
  "importLine e =
     (case e of (i, dir, file) \<Rightarrow>
        ''import * as p'' @ digits i @ '' from '' @ quote @ ''./'' @ dir @ ''/'' @ dirent_name file
        @ ''/native'' @ quote @ '';'' @ newline)"

text \<open>One manifest entry: the resolved plugin name as a JSON string, then the module.\<close>

definition manifestEntry :: "ScanEnv \<Rightarrow> nat \<times> string \<times> Dirent \<Rightarrow> string" where
  "manifestEntry env e =
     (case e of (i, dir, file) \<Rightarrow>
        stringifyString (resolvePluginName env (''src/'' @ dir) file) @ '':p'' @ digits i @ '','' @ newline)"

definition manifestSpec :: "ScanEnv \<Rightarrow> string" where
  "manifestSpec env =
     concat (map importLine (enumerate 0 (nativePluginDirs env)))
     @ ''export default {'' @ newline
     @ concat (map (manifestEntry env) (enumerate 0 (nativePluginDirs env)))
     @ ''};''"

subsection \<open>build.mjs\<close>

text \<open>\<open>isStandalone\<close> and \<open>updaterDisabled\<close> are passed to \<open>define\<close> as they are
  imported, so they are values of any kind here.\<close>

record 'z CommonMjs = Common +
  isStandalone :: jsval
  updaterDisabled :: jsval
  commonOpts :: "'z BuildOptions_scheme"

definition definesMjs :: "('z, 'y) CommonMjs_scheme \<Rightarrow> (string \<rightharpoonup> jsval)" where
  "definesMjs c =
     (let defines =
        [''IS_STANDALONE'' \<mapsto> isStandalone c,
         ''IS_DEV'' \<mapsto> JStr (stringifyBool (watch c)),
         ''IS_UPDATER_DISABLED'' \<mapsto> updaterDisabled c,
         ''VERSION'' \<mapsto> JStr (stringifyString (VERSION c)),
         ''BUILD_TIMESTAMP'' \<mapsto> JNum (BUILD_TIMESTAMP c)]
      in if defines ''IS_STANDALONE'' = Some (JStr ''false'')
         then defines(''process.platform'' \<mapsto> JStr (stringifyString (process_platform c)))
         else defines)"

text \<open>
  \<open>nodeCommonOpts\<close> spreads \<open>commonOpts.external\<close> into an array literal: when the key is
  absent the spread throws a \<open>TypeError\<close>, before any build is started.
\<close>

definition nodeCommonOpts :: "('z, 'y) CommonMjs_scheme \<Rightarrow> JsError + 'z BuildOptions_scheme" where
  "nodeCommonOpts c =
     (case external (commonOpts c) of
        None \<Rightarrow> Inl (Error ''TypeError: commonOpts.external is not iterable'')
      | Some ext \<Rightarrow>
          Inr ((commonOpts c)
                 \<lparr>format := Some ''cjs'',
                  platform := Some ''node'',
                  target := Some [''esnext''],
                  external := Some (''electron'' # ext),
                  defineKey := Some (definesMjs c)\<rparr>))"

definition hostDefinesMjs :: "('z, 'y) CommonMjs_scheme \<Rightarrow> bool \<Rightarrow> bool \<Rightarrow> (string \<rightharpoonup> jsval)" where
  "hostDefinesMjs c discordDesktop vesktop =
     (definesMjs c)
       (''IS_DISCORD_DESKTOP'' \<mapsto> JBool discordDesktop,
        ''IS_VESKTOP'' \<mapsto> JBool vesktop)"

text \<open>The renderer bundles also define \<open>IS_WEB: false\<close>.\<close>

definition rendererDefinesMjs :: "('z, 'y) CommonMjs_scheme \<Rightarrow> bool \<Rightarrow> bool \<Rightarrow> (string \<rightharpoonup> jsval)" where
  "rendererDefinesMjs c discordDesktop vesktop =
     (definesMjs c)
       (''IS_WEB'' \<mapsto> JBool False,
        ''IS_DISCORD_DESKTOP'' \<mapsto> JBool discordDesktop,
        ''IS_VESKTOP'' \<mapsto> JBool vesktop)"

definition nodeBundleMjs ::
  "('z, 'y) CommonMjs_scheme \<Rightarrow> 'z BuildOptions_scheme \<Rightarrow> string \<Rightarrow> string \<Rightarrow> string \<Rightarrow> string \<Rightarrow>
   bool \<Rightarrow> bool \<Rightarrow> 'z BuildOptions_scheme" where
  "nodeBundleMjs c nodeOpts entry out sourceURL mapName discordDesktop vesktop =
     nodeOpts
       \<lparr>entryPoints := Some [entry],
        outfile := Some out,
        footer_js := Some (''//# sourceURL='' @ sourceURL @ newline @ sourceMapFooter c mapName),
        sourcemap := Some (sourcemapValue c),
        defineKey := Some (hostDefinesMjs c discordDesktop vesktop)\<rparr>"

definition rendererBundleMjs ::
  "('z, 'y) CommonMjs_scheme \<Rightarrow> Plugin list \<Rightarrow> string \<Rightarrow> string \<Rightarrow> string \<Rightarrow> string \<Rightarrow>
   bool \<Rightarrow> bool \<Rightarrow> 'z BuildOptions_scheme" where
  "rendererBundleMjs c commonPlugins out sourceURL mapName kind discordDesktop vesktop =
     (commonOpts c)
       \<lparr>entryPoints := Some [''src/Vencord.ts''],
        outfile := Some out,
        format := Some ''iife'',
        target := Some [''esnext''],
        footer_js := Some (''//# sourceURL='' @ sourceURL @ newline @ sourceMapFooter c mapName),
        globalName := Some ''Vencord'',
        sourcemap := Some (sourcemapValue c),
        plugins := Some (GlobPlugins kind # commonPlugins),
        defineKey := Some (rendererDefinesMjs c discordDesktop vesktop)\<rparr>"

text \<open>
  The calls of \<open>esbuild.build\<close> that build.mjs makes, in order, and the exception that
  ends the script early, if any. The array literal is evaluated left to right: the
  patcher build is started before the renderer's options spread \<open>commonOpts.plugins\<close>,
  and an absent key throws there.
\<close>

definition buildsMjs :: "('z, 'y) CommonMjs_scheme \<Rightarrow> 'z BuildOptions_scheme list \<times> JsError option" where
  "buildsMjs c =
     (case nodeCommonOpts c of
        Inl e \<Rightarrow> ([], Some e)
      | Inr nodeOpts \<Rightarrow>
          (let patcher = nodeBundleMjs c nodeOpts ''src/main/index.ts'' ''dist/patcher.js''
                 ''VencordPatcher'' ''patcher'' True False
           in case plugins (commonOpts c) of
                None \<Rightarrow> ([patcher], Some (Error ''TypeError: commonOpts.plugins is not iterable''))
              | Some commonPlugins \<Rightarrow>
                  ([patcher,
                    rendererBundleMjs c commonPlugins ''dist/renderer.js''
                      ''VencordRenderer'' ''renderer'' ''discordDesktop'' True False,
                    nodeBundleMjs c nodeOpts ''src/preload.ts'' ''dist/preload.js''
                      ''VencordPreload'' ''preload'' True False,
                    nodeBundleMjs c nodeOpts ''src/main/index.ts'' ''dist/vencordDesktopMain.js''
                      ''VencordDesktopMain'' ''vencordDesktopMain'' False True,
                    rendererBundleMjs c commonPlugins ''dist/vencordDesktopRenderer.js''
                      ''VencordDesktopRenderer'' ''vencordDesktopRenderer'' ''vencordDesktop'' False True,
                    nodeBundleMjs c nodeOpts ''src/preload.ts'' ''dist/vencordDesktopPreload.js''
                      ''VencordPreload'' ''vencordDesktopPreload'' False True],
                   None)))"

subsection \<open>Reading a bundle's configuration\<close>

text \<open>The truth value that a define flag denotes: a boolean, or the JSON text of one.\<close>

definition flagTruth :: "jsval option \<Rightarrow> bool option" where
  "flagTruth v =
     (case v of
        Some (JBool b) \<Rightarrow> Some b
      | Some (JStr s) \<Rightarrow> (if s = ''true'' then Some True else if s = ''false'' then Some False else None)
      | _ \<Rightarrow> None)"

definition defineOf :: "'z BuildOptions_scheme \<Rightarrow> (string \<rightharpoonup> jsval)" where
  "defineOf opts = (case defineKey opts of None \<Rightarrow> Map.empty | Some d \<Rightarrow> d)"

text \<open>The truth values of \<open>IS_DISCORD_DESKTOP\<close> and \<open>IS_VESKTOP\<close> in a bundle.\<close>

definition hostFlags :: "'z BuildOptions_scheme \<Rightarrow> bool option \<times> bool option" where
  "hostFlags opts =
     (flagTruth (defineOf opts ''IS_DISCORD_DESKTOP''), flagTruth (defineOf opts ''IS_VESKTOP''))"

text \<open>Entry points, output file and module format of a bundle.\<close>

definition bundleShape :: "'z BuildOptions_scheme \<Rightarrow> string list option \<times> string option \<times> string option" where
  "bundleShape opts = (entryPoints opts, outfile opts, format opts)"

text \<open>Exactly one of the two host flags denotes true and the other false.\<close>

definition exactlyOneHost :: "'z BuildOptions_scheme \<Rightarrow> bool" where
  "exactlyOneHost opts =
     (hostFlags opts = (Some True, Some False) \<or> hostFlags opts = (Some False, Some True))"

subsection \<open>Example inputs\<close>

text \<open>Common options as common.mjs could export them, and the imports of each script.\<close>

definition exampleOpts :: BuildOptions where
  "exampleOpts =
     \<lparr>entryPoints = None, outfile = None, format = None, platform = None, target = None,
      external = Some [''~plugins'', ''~git-hash''], defineKey = None, footer_js = None,
      sourcemap = None, globalName = None, plugins = Some [CommonPlugin ''git-hash-plugin'']\<rparr>"

definition exampleMts :: "unit CommonMts" where
  "exampleMts =
     \<lparr>VERSION = ''1.4.2'', BUILD_TIMESTAMP = 1000, watch = False, process_platform = ''linux'',
      IS_STANDALONE = False, IS_DEV = False, IS_REPORTER = False, IS_UPDATER_DISABLED = False,
      buildOpts = exampleOpts\<rparr>"

definition exampleMjs :: "unit CommonMjs" where
  "exampleMjs =
     \<lparr>VERSION = ''1.4.2'', BUILD_TIMESTAMP = 1000, watch = False, process_platform = ''linux'',
      isStandalone = JStr ''false'', updaterDisabled = JStr ''false'',
      commonOpts = exampleOpts\<rparr>"

text \<open>A source tree with two native plugins and no \<open>src/userplugins\<close>.\<close>

definition exampleFs :: ScanEnv where
  "exampleFs =
     \<lparr>exists = (\<lambda>p. p \<in> set [''src/plugins'', ''src/plugins/xsOverlay.desktop/native.ts'',
                             ''src/plugins/voiceMessages/native/index.ts'']),
      readdir = (\<lambda>p. if p = ''src/plugins''
                     then [\<lparr>dirent_name = ''oneko.ts'', dirent_isDirectory = False\<rparr>,
                           \<lparr>dirent_name = ''xsOverlay.desktop'', dirent_isDirectory = True\<rparr>,
                           \<lparr>dirent_name = ''voiceMessages'', dirent_isDirectory = True\<rparr>]
                     else []),
      resolvePluginName = (\<lambda>p e. if dirent_name e = ''xsOverlay.desktop'' then ''XSOverlay''
                                   else ''VoiceMessages'')\<rparr>"

section \<open>Properties\<close>

subsection \<open>Plugin declarations and lifecycle hooks\<close>

text \<open>
  C2, as stated, fails: the declaration of \<open>oneko\<close> has no option schema, and the
  declaration of \<open>AnonymiseFileNames\<close> has neither a \<open>start\<close> nor a \<open>stop\<close> hook.
\<close>

theorem declarations_missing_keys:
  "plugin_options onekoPlugin = None \<and>
   plugin_start anonymiseFileNamesPlugin = None \<and>
   plugin_stop anonymiseFileNamesPlugin = None"
  by (simp add: onekoPlugin_def anonymiseFileNamesPlugin_def)

text \<open>
  C2, amended. Every plugin declaration passed to \<open>definePlugin\<close> supplies a name, a
  description and an authors list. The option schema, the hooks \<open>start\<close> and \<open>stop\<close>
  and the source patches are optional: \<open>oneko\<close> has both hooks and neither options nor
  patches, \<open>AnonymiseFileNames\<close> has options and patches and neither hook.
\<close>

theorem declarations_shape:
  "list_all suppliesMetadata pluginDeclarations \<and>
   map (\<lambda>p. (plugin_options p = None, plugin_start p = None, plugin_stop p = None, plugin_patches p = None))
     pluginDeclarations =
     [(True, False, False, True), (False, True, True, False)]"
  by (simp add: pluginDeclarations_def suppliesMetadata_def onekoPlugin_def anonymiseFileNamesPlugin_def)

text \<open>
  C3. For every plugin, if its \<open>start\<close> or \<open>stop\<close> hook throws an exception, the
  exception is caught (the manager returns normally) and is reported: a report naming
  the plugin, the hook and the exception is appended. The manager is the one modelled
  from the specification.
\<close>

theorem hook_exception_caught_and_reported:
  "(\<forall>h e w'. plugin_start p = Some h \<and> h w = (Some e, w') \<longrightarrow>
      startPlugin p w reports =
        Inr (False, w',
             reports @ [\<lparr>report_plugin = pluginNameOf p, report_hook = ''start'', report_error = e\<rparr>])) \<and>
   (\<forall>h e w'. plugin_stop p = Some h \<and> h w = (Some e, w') \<longrightarrow>
      stopPlugin p w reports =
        Inr (False, w',
             reports @ [\<lparr>report_plugin = pluginNameOf p, report_hook = ''stop'', report_error = e\<rparr>])) \<and>
   (\<exists>r. startPlugin p w reports = Inr r) \<and>
   (\<exists>r. stopPlugin p w reports = Inr r)"
  by (auto simp: startPlugin_def stopPlugin_def runHook_def split: option.splits prod.splits)

theorem hook_exception_caught_and_reported_witness:
  "startPlugin throwingPlugin emptyWindow [] =
     Inr (False, emptyWindow,
          [\<lparr>report_plugin = ''Throws'', report_hook = ''start'', report_error = Error ''start failed''\<rparr>]) \<and>
   stopPlugin throwingPlugin emptyWindow [] =
     Inr (False, emptyWindow,
          [\<lparr>report_plugin = ''Throws'', report_hook = ''stop'', report_error = Error ''stop failed''\<rparr>])"
proof -
  have s: "plugin_start throwingPlugin = Some (\<lambda>w. (Some (Error ''start failed''), w)) \<and>
      (\<lambda>w. (Some (Error ''start failed''), w)) emptyWindow = (Some (Error ''start failed''), emptyWindow)"
    by (simp add: throwingPlugin_def)
  have t: "plugin_stop throwingPlugin = Some (\<lambda>w. (Some (Error ''stop failed''), w\<lparr>onekoInterval := None\<rparr>)) \<and>
      (\<lambda>w. (Some (Error ''stop failed''), w\<lparr>onekoInterval := None\<rparr>)) emptyWindow
        = (Some (Error ''stop failed''), emptyWindow)"
    by (simp add: throwingPlugin_def emptyWindow_def)
  have n: "pluginNameOf throwingPlugin = ''Throws''"
    by (simp add: pluginNameOf_def throwingPlugin_def)
  note c = hook_exception_caught_and_reported [of throwingPlugin emptyWindow "[]"]
  from c [THEN conjunct1, rule_format, OF s] c [THEN conjunct2, THEN conjunct1, rule_format, OF t] n
  show ?thesis by simp
qed

subsection \<open>The build scripts\<close>

lemma buildsMts_eq: "buildsMts c = buildOptions c"
  by (simp only: buildsMts_def map_nth)

lemma stringifyBool_flag [simp]: "flagTruth (Some (JStr (stringifyBool b))) = Some b"
  by (simp add: flagTruth_def stringifyBool_def)

lemma JBool_flag [simp]: "flagTruth (Some (JBool b)) = Some b"
  by (simp add: flagTruth_def)

lemma length_buildOptions: "length (buildOptions c) = 6"
  by (simp add: buildOptions_def)

lemma outfile_buildOptions:
  "map outfile (buildOptions c) =
     [Some ''dist/patcher.js'', Some ''dist/renderer.js'', Some ''dist/preload.js'',
      Some ''dist/vencordDesktopMain.js'', Some ''dist/vencordDesktopRenderer.js'',
      Some ''dist/vencordDesktopPreload.js'']"
  by (simp add: buildOptions_def)

lemma shape_buildOptions:
  "map bundleShape (buildOptions c) =
     [(Some [''src/main/index.ts''], Some ''dist/patcher.js'', Some ''cjs''),
      (Some [''src/Vencord.ts''], Some ''dist/renderer.js'', Some ''iife''),
      (Some [''src/preload.ts''], Some ''dist/preload.js'', Some ''cjs''),
      (Some [''src/main/index.ts''], Some ''dist/vencordDesktopMain.js'', Some ''cjs''),
      (Some [''src/Vencord.ts''], Some ''dist/vencordDesktopRenderer.js'', Some ''iife''),
      (Some [''src/preload.ts''], Some ''dist/vencordDesktopPreload.js'', Some ''cjs'')]"
  by (simp add: buildOptions_def bundleShape_def nodeBuildOpts_def)

lemma hostFlags_buildOptions:
  "map hostFlags (buildOptions c) =
     [(Some True, Some False), (Some True, Some False), (Some True, Some False),
      (Some False, Some True), (Some False, Some True), (Some False, Some True)]"
  by (simp add: buildOptions_def hostFlags_def defineOf_def hostDefinesMts_def)

lemma buildsMjs_ok:
  assumes "external (commonOpts d) = Some ext" "plugins (commonOpts d) = Some ps"
  shows "snd (buildsMjs d) = None" and "length (fst (buildsMjs d)) = 6"
    and "map outfile (fst (buildsMjs d)) =
     [Some ''dist/patcher.js'', Some ''dist/renderer.js'', Some ''dist/preload.js'',
      Some ''dist/vencordDesktopMain.js'', Some ''dist/vencordDesktopRenderer.js'',
      Some ''dist/vencordDesktopPreload.js'']"
    and "map bundleShape (fst (buildsMjs d)) =
     [(Some [''src/main/index.ts''], Some ''dist/patcher.js'', Some ''cjs''),
      (Some [''src/Vencord.ts''], Some ''dist/renderer.js'', Some ''iife''),
      (Some [''src/preload.ts''], Some ''dist/preload.js'', Some ''cjs''),
      (Some [''src/main/index.ts''], Some ''dist/vencordDesktopMain.js'', Some ''cjs''),
      (Some [''src/Vencord.ts''], Some ''dist/vencordDesktopRenderer.js'', Some ''iife''),
      (Some [''src/preload.ts''], Some ''dist/vencordDesktopPreload.js'', Some ''cjs'')]"
    and "map hostFlags (fst (buildsMjs d)) =
     [(Some True, Some False), (Some True, Some False), (Some True, Some False),
      (Some False, Some True), (Some False, Some True), (Some False, Some True)]"
  using assms
  by (simp_all add: buildsMjs_def nodeCommonOpts_def nodeBundleMjs_def rendererBundleMjs_def
      bundleShape_def hostFlags_def defineOf_def hostDefinesMjs_def rendererDefinesMjs_def Let_def)

text \<open>Without the arrays that build.mjs spreads, the script ends with a
  \<open>TypeError\<close> after no build, or after the patcher build only.\<close>

lemma buildsMjs_missing_external:
  "external (commonOpts d) = None \<Longrightarrow>
   buildsMjs d = ([], Some (Error ''TypeError: commonOpts.external is not iterable''))"
  by (simp add: buildsMjs_def nodeCommonOpts_def)

lemma buildsMjs_missing_plugins:
  "external (commonOpts d) = Some ext \<Longrightarrow> plugins (commonOpts d) = None \<Longrightarrow>
   length (fst (buildsMjs d)) = 1 \<and>
   snd (buildsMjs d) = Some (Error ''TypeError: commonOpts.plugins is not iterable'')"
  by (simp add: buildsMjs_def nodeCommonOpts_def Let_def)

lemma example_shape:
  "external (commonOpts exampleMjs) = Some [''~plugins'', ''~git-hash''] \<and>
   plugins (commonOpts exampleMjs) = Some [CommonPlugin ''git-hash-plugin'']"
  by (simp add: exampleMjs_def exampleOpts_def)

text \<open>
  C5. Each build script starts builds for exactly six bundles: a main-process (patcher),
  renderer and preload bundle for Discord Desktop and for Vencord Desktop, with six
  pairwise distinct output files under \<open>dist/\<close>. For build.mjs this holds when the common
  options have the keys \<open>external\<close> and \<open>plugins\<close>, which the script spreads.
\<close>

theorem six_bundles_started:
  "length (buildsMts c) = 6 \<and>
   map outfile (buildsMts c) =
     [Some ''dist/patcher.js'', Some ''dist/renderer.js'', Some ''dist/preload.js'',
      Some ''dist/vencordDesktopMain.js'', Some ''dist/vencordDesktopRenderer.js'',
      Some ''dist/vencordDesktopPreload.js''] \<and>
   distinct (map outfile (buildsMts c)) \<and>
   map (\<lambda>opts. (entryPoints opts, fst (hostFlags opts))) (buildsMts c) =
     [(Some [''src/main/index.ts''], Some True), (Some [''src/Vencord.ts''], Some True),
      (Some [''src/preload.ts''], Some True),
      (Some [''src/main/index.ts''], Some False), (Some [''src/Vencord.ts''], Some False),
      (Some [''src/preload.ts''], Some False)] \<and>
   (\<forall>ext ps. external (commonOpts d) = Some ext \<and> plugins (commonOpts d) = Some ps \<longrightarrow>
      snd (buildsMjs d) = None \<and>
      length (fst (buildsMjs d)) = 6 \<and>
      map outfile (fst (buildsMjs d)) =
        [Some ''dist/patcher.js'', Some ''dist/renderer.js'', Some ''dist/preload.js'',
         Some ''dist/vencordDesktopMain.js'', Some ''dist/vencordDesktopRenderer.js'',
         Some ''dist/vencordDesktopPreload.js''] \<and>
      distinct (map outfile (fst (buildsMjs d))) \<and>
      map (\<lambda>opts. (entryPoints opts, fst (hostFlags opts))) (fst (buildsMjs d)) =
        [(Some [''src/main/index.ts''], Some True), (Some [''src/Vencord.ts''], Some True),
         (Some [''src/preload.ts''], Some True),
         (Some [''src/main/index.ts''], Some False), (Some [''src/Vencord.ts''], Some False),
         (Some [''src/preload.ts''], Some False)])"
proof -
  have roles: "map (\<lambda>opts. (entryPoints opts, fst (hostFlags opts))) xs =
      map (\<lambda>(shape, flags). (fst shape, fst flags)) (zip (map bundleShape xs) (map hostFlags xs))"
    for xs :: "'q BuildOptions_scheme list"
    by (induction xs) (simp_all add: bundleShape_def)
  have mts: "length (buildsMts c) = 6"
    "map outfile (buildsMts c) =
     [Some ''dist/patcher.js'', Some ''dist/renderer.js'', Some ''dist/preload.js'',
      Some ''dist/vencordDesktopMain.js'', Some ''dist/vencordDesktopRenderer.js'',
      Some ''dist/vencordDesktopPreload.js'']"
    by (simp_all only: buildsMts_eq length_buildOptions outfile_buildOptions)
  have mts_distinct: "distinct (map outfile (buildsMts c))"
    by (simp add: mts(2))
  have mts_roles: "map (\<lambda>opts. (entryPoints opts, fst (hostFlags opts))) (buildsMts c) =
     [(Some [''src/main/index.ts''], Some True), (Some [''src/Vencord.ts''], Some True),
      (Some [''src/preload.ts''], Some True),
      (Some [''src/main/index.ts''], Some False), (Some [''src/Vencord.ts''], Some False),
      (Some [''src/preload.ts''], Some False)]"
    by (simp add: roles buildsMts_eq shape_buildOptions hostFlags_buildOptions)
  have mjs: "snd (buildsMjs d) = None \<and>
      length (fst (buildsMjs d)) = 6 \<and>
      map outfile (fst (buildsMjs d)) =
        [Some ''dist/patcher.js'', Some ''dist/renderer.js'', Some ''dist/preload.js'',
         Some ''dist/vencordDesktopMain.js'', Some ''dist/vencordDesktopRenderer.js'',
         Some ''dist/vencordDesktopPreload.js''] \<and>
      distinct (map outfile (fst (buildsMjs d))) \<and>
      map (\<lambda>opts. (entryPoints opts, fst (hostFlags opts))) (fst (buildsMjs d)) =
        [(Some [''src/main/index.ts''], Some True), (Some [''src/Vencord.ts''], Some True),
         (Some [''src/preload.ts''], Some True),
         (Some [''src/main/index.ts''], Some False), (Some [''src/Vencord.ts''], Some False),
         (Some [''src/preload.ts''], Some False)]"
    if "external (commonOpts d) = Some ext \<and> plugins (commonOpts d) = Some ps" for ext ps
  proof -
    from that have e: "external (commonOpts d) = Some ext" and p: "plugins (commonOpts d) = Some ps"
      by simp_all
    note ok = buildsMjs_ok [OF e p]
    have "distinct (map outfile (fst (buildsMjs d)))"
      by (simp add: ok(3))
    moreover have "map (\<lambda>opts. (entryPoints opts, fst (hostFlags opts))) (fst (buildsMjs d)) =
        [(Some [''src/main/index.ts''], Some True), (Some [''src/Vencord.ts''], Some True),
         (Some [''src/preload.ts''], Some True),
         (Some [''src/main/index.ts''], Some False), (Some [''src/Vencord.ts''], Some False),
         (Some [''src/preload.ts''], Some False)]"
      by (simp add: roles ok(4) ok(5))
    ultimately show ?thesis using ok(1) ok(2) ok(3) by blast
  qed
  from mts mts_distinct mts_roles mjs show ?thesis by blast
qed

theorem six_bundles_started_witness:
  "external (commonOpts exampleMjs) = Some [''~plugins'', ''~git-hash''] \<and>
   plugins (commonOpts exampleMjs) = Some [CommonPlugin ''git-hash-plugin''] \<and>
   snd (buildsMjs exampleMjs) = None \<and>
   length (fst (buildsMjs exampleMjs)) = 6 \<and>
   distinct (map outfile (fst (buildsMjs exampleMjs))) \<and>
   length (buildsMts exampleMts) = 6 \<and>
   distinct (map outfile (buildsMts exampleMts))"
  using six_bundles_started [of exampleMts exampleMjs] example_shape by blast

text \<open>
  C7. Either build script builds six bundle configurations, and in every one of them
  exactly one of the flags \<open>IS_DISCORD_DESKTOP\<close> and \<open>IS_VESKTOP\<close> is defined as true and
  the other as false: the first three define \<open>IS_DISCORD_DESKTOP\<close> as true, the last
  three \<open>IS_VESKTOP\<close> (build.mts passes the JSON text of the boolean, build.mjs the
  boolean). For build.mjs this holds when the common options have the keys \<open>external\<close>
  and \<open>plugins\<close>, which the script spreads.
\<close>

theorem exactly_one_host_flag:
  "length (buildsMts c) = 6 \<and>
   map hostFlags (buildsMts c) =
     [(Some True, Some False), (Some True, Some False), (Some True, Some False),
      (Some False, Some True), (Some False, Some True), (Some False, Some True)] \<and>
   list_all exactlyOneHost (buildsMts c) \<and>
   (\<forall>ext ps. external (commonOpts d) = Some ext \<and> plugins (commonOpts d) = Some ps \<longrightarrow>
      length (fst (buildsMjs d)) = 6 \<and>
      map hostFlags (fst (buildsMjs d)) =
        [(Some True, Some False), (Some True, Some False), (Some True, Some False),
         (Some False, Some True), (Some False, Some True), (Some False, Some True)] \<and>
      list_all exactlyOneHost (fst (buildsMjs d)))"
proof -
  have all: "list_all exactlyOneHost xs"
    if "map hostFlags xs =
     [(Some True, Some False), (Some True, Some False), (Some True, Some False),
      (Some False, Some True), (Some False, Some True), (Some False, Some True)]"
    for xs :: "'q BuildOptions_scheme list"
  proof -
    have "list_all (\<lambda>f. f = (Some True, Some False) \<or> f = (Some False, Some True)) (map hostFlags xs)"
      by (simp add: that)
    then show ?thesis
      by (simp add: list_all_iff exactlyOneHost_def)
  qed
  have len: "length (buildsMts c) = 6"
    by (simp only: buildsMts_eq length_buildOptions)
  have flags: "map hostFlags (buildsMts c) =
     [(Some True, Some False), (Some True, Some False), (Some True, Some False),
      (Some False, Some True), (Some False, Some True), (Some False, Some True)]"
    by (simp only: buildsMts_eq hostFlags_buildOptions)
  have mjs: "length (fst (buildsMjs d)) = 6 \<and>
      map hostFlags (fst (buildsMjs d)) =
        [(Some True, Some False), (Some True, Some False), (Some True, Some False),
         (Some False, Some True), (Some False, Some True), (Some False, Some True)] \<and>
      list_all exactlyOneHost (fst (buildsMjs d))"
    if "external (commonOpts d) = Some ext \<and> plugins (commonOpts d) = Some ps" for ext ps
  proof -
    from that have e: "external (commonOpts d) = Some ext" and p: "plugins (commonOpts d) = Some ps"
      by simp_all
    note ok = buildsMjs_ok [OF e p]
    from ok(2) ok(5) all [OF ok(5)] show ?thesis by blast
  qed
  from len flags all [OF flags] mjs show ?thesis by blast
qed

theorem exactly_one_host_flag_witness:
  "external (commonOpts exampleMjs) = Some [''~plugins'', ''~git-hash''] \<and>
   plugins (commonOpts exampleMjs) = Some [CommonPlugin ''git-hash-plugin''] \<and>
   length (fst (buildsMjs exampleMjs)) = 6 \<and>
   map hostFlags (fst (buildsMjs exampleMjs)) =
     [(Some True, Some False), (Some True, Some False), (Some True, Some False),
      (Some False, Some True), (Some False, Some True), (Some False, Some True)] \<and>
   list_all exactlyOneHost (fst (buildsMjs exampleMjs)) \<and>
   length (buildsMts exampleMts) = 6 \<and>
   map hostFlags (buildsMts exampleMts) =
     [(Some True, Some False), (Some True, Some False), (Some True, Some False),
      (Some False, Some True), (Some False, Some True), (Some False, Some True)] \<and>
   list_all exactlyOneHost (buildsMts exampleMts)"
  using exactly_one_host_flag [of exampleMts exampleMjs] example_shape by blast

lemma definedKeys_buildOptions:
  "map (\<lambda>opts. map (\<lambda>k. k \<in> dom (defineOf opts)) [''IS_REPORTER'', ''IS_EXTENSION'', ''IS_WEB''])
     (buildOptions c) =
   [[True, True, True], [True, True, True], [True, True, True],
    [True, True, True], [True, True, True], [True, True, True]]"
  by (simp add: buildOptions_def defineOf_def hostDefinesMts_def definesMts_def Let_def)

lemma definedKeys_buildsMjs:
  assumes "external (commonOpts d) = Some ext" "plugins (commonOpts d) = Some ps"
  shows "map (\<lambda>opts. map (\<lambda>k. k \<in> dom (defineOf opts)) [''IS_REPORTER'', ''IS_EXTENSION'', ''IS_WEB''])
     (fst (buildsMjs d)) =
   [[False, False, False], [False, False, True], [False, False, False],
    [False, False, False], [False, False, True], [False, False, False]]"
  using assms
  by (simp add: buildsMjs_def nodeCommonOpts_def nodeBundleMjs_def rendererBundleMjs_def
      defineOf_def hostDefinesMjs_def rendererDefinesMjs_def definesMjs_def Let_def)

text \<open>
  C6, as stated, fails: the two scripts do not produce the same define flags. On the
  patcher bundle build.mts defines \<open>IS_REPORTER\<close>, which build.mjs never defines, and
  build.mts passes \<open>IS_DISCORD_DESKTOP\<close> as the JSON text \<open>"true"\<close> where build.mjs passes
  the boolean \<open>true\<close>.
\<close>

theorem build_scripts_defines_differ:
  "defineOf (buildsMts exampleMts ! 0) ''IS_REPORTER'' = Some (JStr ''false'') \<and>
   defineOf (fst (buildsMjs exampleMjs) ! 0) ''IS_REPORTER'' = None \<and>
   defineOf (buildsMts exampleMts ! 0) ''IS_DISCORD_DESKTOP'' = Some (JStr ''true'') \<and>
   defineOf (fst (buildsMjs exampleMjs) ! 0) ''IS_DISCORD_DESKTOP'' = Some (JBool True)"
  by (simp add: buildsMts_eq buildOptions_def buildsMjs_def nodeCommonOpts_def nodeBundleMjs_def
      defineOf_def hostDefinesMts_def hostDefinesMjs_def definesMts_def definesMjs_def Let_def
      exampleMts_def exampleMjs_def exampleOpts_def stringifyBool_def)

text \<open>
  C6, amended. For each of the six bundles both scripts produce the same entry point,
  output file and module format, and the same truth values of \<open>IS_DISCORD_DESKTOP\<close> and
  \<open>IS_VESKTOP\<close>. The define flags differ: build.mts defines \<open>IS_REPORTER\<close>,
  \<open>IS_EXTENSION\<close> and \<open>IS_WEB\<close> on every bundle; build.mjs never defines \<open>IS_REPORTER\<close>
  or \<open>IS_EXTENSION\<close> and defines \<open>IS_WEB\<close> on the two renderer bundles only.
\<close>

theorem build_scripts_agreement:
  "\<forall>ext ps. external (commonOpts d) = Some ext \<and> plugins (commonOpts d) = Some ps \<longrightarrow>
     map bundleShape (fst (buildsMjs d)) = map bundleShape (buildsMts c) \<and>
     map hostFlags (fst (buildsMjs d)) = map hostFlags (buildsMts c) \<and>
     map (\<lambda>opts. map (\<lambda>k. k \<in> dom (defineOf opts)) [''IS_REPORTER'', ''IS_EXTENSION'', ''IS_WEB''])
       (buildsMts c) =
       [[True, True, True], [True, True, True], [True, True, True],
        [True, True, True], [True, True, True], [True, True, True]] \<and>
     map (\<lambda>opts. map (\<lambda>k. k \<in> dom (defineOf opts)) [''IS_REPORTER'', ''IS_EXTENSION'', ''IS_WEB''])
       (fst (buildsMjs d)) =
       [[False, False, False], [False, False, True], [False, False, False],
        [False, False, False], [False, False, True], [False, False, False]]"
proof (intro allI impI)
  fix ext ps
  assume "external (commonOpts d) = Some ext \<and> plugins (commonOpts d) = Some ps"
  then have e: "external (commonOpts d) = Some ext" and p: "plugins (commonOpts d) = Some ps"
    by simp_all
  have "map bundleShape (fst (buildsMjs d)) = map bundleShape (buildsMts c)"
    by (simp only: buildsMjs_ok(4) [OF e p] buildsMts_eq shape_buildOptions)
  moreover have "map hostFlags (fst (buildsMjs d)) = map hostFlags (buildsMts c)"
    by (simp only: buildsMjs_ok(5) [OF e p] buildsMts_eq hostFlags_buildOptions)
  ultimately show
    "map bundleShape (fst (buildsMjs d)) = map bundleShape (buildsMts c) \<and>
     map hostFlags (fst (buildsMjs d)) = map hostFlags (buildsMts c) \<and>
     map (\<lambda>opts. map (\<lambda>k. k \<in> dom (defineOf opts)) [''IS_REPORTER'', ''IS_EXTENSION'', ''IS_WEB''])
       (buildsMts c) =
       [[True, True, True], [True, True, True], [True, True, True],
        [True, True, True], [True, True, True], [True, True, True]] \<and>
     map (\<lambda>opts. map (\<lambda>k. k \<in> dom (defineOf opts)) [''IS_REPORTER'', ''IS_EXTENSION'', ''IS_WEB''])
       (fst (buildsMjs d)) =
       [[False, False, False], [False, False, True], [False, False, False],
        [False, False, False], [False, False, True], [False, False, False]]"
    using definedKeys_buildsMjs [OF e p] definedKeys_buildOptions [of c]
    by (simp only: buildsMts_eq simp_thms)
qed

theorem build_scripts_agreement_witness:
  "external (commonOpts exampleMjs) = Some [''~plugins'', ''~git-hash''] \<and>
   plugins (commonOpts exampleMjs) = Some [CommonPlugin ''git-hash-plugin''] \<and>
   map bundleShape (fst (buildsMjs exampleMjs)) = map bundleShape (buildsMts exampleMts) \<and>
   map hostFlags (fst (buildsMjs exampleMjs)) = map hostFlags (buildsMts exampleMts)"
  using build_scripts_agreement [of exampleMjs exampleMts] example_shape by blast

subsection \<open>The manifest of native plugins\<close>

lemma scanFiles_spec:
  "scanFiles env dir files (code, natives, i) =
     (code @ concat (map importLine (enumerate i (map (Pair dir) (filter (hasNative env dir) files)))),
      natives @ concat (map (manifestEntry env) (enumerate i (map (Pair dir) (filter (hasNative env dir) files)))),
      i + length (filter (hasNative env dir) files))"
proof (induction files arbitrary: code natives i)
  case Nil
  then show ?case by simp
next
  case (Cons entry rest)
  show ?case
  proof (cases "hasNative env dir entry")
    case True
    then show ?thesis
      using Cons.IH by (simp add: hasNative_def Let_def importLine_def manifestEntry_def)
  next
    case False
    then show ?thesis
      using Cons.IH by (simp add: hasNative_def Let_def)
  qed
qed

lemma scanDirs_spec:
  "scanDirs env dirs (code, natives, i) =
     (code @ concat (map importLine (enumerate i (concat (map (dirEntries env) dirs)))),
      natives @ concat (map (manifestEntry env) (enumerate i (concat (map (dirEntries env) dirs)))),
      i + length (concat (map (dirEntries env) dirs)))"
proof (induction dirs arbitrary: code natives i)
  case Nil
  then show ?case by simp
next
  case (Cons dir dirs)
  show ?case
  proof (cases "exists env (''src/'' @ dir)")
    case True
    then show ?thesis
      using Cons.IH
      by (simp add: Let_def scanFiles_spec dirEntries_def enumerate_append_eq add.commute)
  next
    case False
    then show ?thesis
      using Cons.IH by (simp add: Let_def dirEntries_def)
  qed
qed

lemma nativePluginDirs_eq: "nativePluginDirs env = concat (map (dirEntries env) [''plugins'', ''userplugins''])"
  by (simp add: nativePluginDirs_def dirEntries_def)

lemma contents_spec: "contents (globNativesOnLoad env) = manifestSpec env"
  unfolding manifestSpec_def nativePluginDirs_eq
  by (simp add: globNativesOnLoad_def Let_def scanDirs_spec del: concat.simps map_append concat_append)

lemma count_list_filter: "count_list (filter P xs) x = (if P x then count_list xs x else 0)"
  by (induction xs) auto

lemma count_list_Pair: "count_list (map (Pair d) xs) (d', x) = (if d = d' then count_list xs x else 0)"
  by (induction xs) auto

lemma count_list_app: "count_list (xs @ ys) x = count_list xs x + count_list ys x"
  by (induction xs) auto

lemma count_nativePluginDirs:
  "count_list (nativePluginDirs env) (dir, file) =
     (if (dir = ''plugins'' \<or> dir = ''userplugins'') \<and> exists env (''src/'' @ dir) \<and> hasNative env dir file
      then count_list (readdir env (''src/'' @ dir)) file else 0)"
  by (simp add: nativePluginDirs_def count_list_app count_list_Pair count_list_filter)

lemma digits_0: "digits 0 = ''0''"
  by code_simp

lemma digits_1: "digits (Suc 0) = ''1''"
  by code_simp

text \<open>
  C4. The native-plugin manifest is produced by a directory scan: \<open>globNativesPlugin\<close>
  scans \<open>plugins\<close> and \<open>userplugins\<close> under \<open>src\<close>, skipping a directory that does not
  exist, and the generated module is the rendering of the list \<open>nativePluginDirs\<close>: one
  import and one manifest entry, keyed by the resolved plugin name, per listed plugin
  directory that contains \<open>native.ts\<close> or \<open>native/index.ts\<close>, and none for any other.
\<close>

theorem native_manifest_by_scan:
  "contents (globNativesOnLoad env) = manifestSpec env \<and>
   (\<forall>dir entry.
      count_list (nativePluginDirs env) (dir, entry) =
        (if (dir = ''plugins'' \<or> dir = ''userplugins'') \<and> exists env (''src/'' @ dir) \<and> hasNative env dir entry
         then count_list (readdir env (''src/'' @ dir)) entry else 0)) \<and>
   (\<forall>dir entry.
      (dir = ''plugins'' \<or> dir = ''userplugins'') \<and> exists env (''src/'' @ dir) \<and>
      count_list (readdir env (''src/'' @ dir)) entry = 1 \<longrightarrow>
      count_list (nativePluginDirs env) (dir, entry) = (if hasNative env dir entry then 1 else 0))"
  by (simp add: contents_spec count_nativePluginDirs)

theorem native_manifest_by_scan_witness:
  "contents (globNativesOnLoad exampleFs) =
     ''import * as p0 from '' @ quote @ ''./plugins/xsOverlay.desktop/native'' @ quote @ '';'' @ newline @
     ''import * as p1 from '' @ quote @ ''./plugins/voiceMessages/native'' @ quote @ '';'' @ newline @
     ''export default {'' @ newline @
     quote @ ''XSOverlay'' @ quote @ '':p0,'' @ newline @
     quote @ ''VoiceMessages'' @ quote @ '':p1,'' @ newline @
     ''};'' \<and>
   count_list (nativePluginDirs exampleFs)
     (''plugins'', \<lparr>dirent_name = ''voiceMessages'', dirent_isDirectory = True\<rparr>) = 1 \<and>
   count_list (nativePluginDirs exampleFs)
     (''plugins'', \<lparr>dirent_name = ''oneko.ts'', dirent_isDirectory = False\<rparr>) = 0"
proof -
  have dirs: "nativePluginDirs exampleFs =
      [(''plugins'', \<lparr>dirent_name = ''xsOverlay.desktop'', dirent_isDirectory = True\<rparr>),
       (''plugins'', \<lparr>dirent_name = ''voiceMessages'', dirent_isDirectory = True\<rparr>)]"
    by (simp add: nativePluginDirs_def exampleFs_def hasNative_def)
  have spec: "manifestSpec exampleFs =
     ''import * as p0 from '' @ quote @ ''./plugins/xsOverlay.desktop/native'' @ quote @ '';'' @ newline @
     ''import * as p1 from '' @ quote @ ''./plugins/voiceMessages/native'' @ quote @ '';'' @ newline @
     ''export default {'' @ newline @
     quote @ ''XSOverlay'' @ quote @ '':p0,'' @ newline @
     quote @ ''VoiceMessages'' @ quote @ '':p1,'' @ newline @
     ''};''"
    unfolding manifestSpec_def dirs
    by (simp add: importLine_def manifestEntry_def digits_0 digits_1 exampleFs_def stringifyString_def
        escapeChar_def quote_def)
  have one: "(''plugins'' = ''plugins'' \<or> ''plugins'' = ''userplugins'') \<and>
      exists exampleFs (''src/'' @ ''plugins'') \<and>
      count_list (readdir exampleFs (''src/'' @ ''plugins''))
        \<lparr>dirent_name = ''voiceMessages'', dirent_isDirectory = True\<rparr> = 1"
    by (simp add: exampleFs_def)
  have two: "(''plugins'' = ''plugins'' \<or> ''plugins'' = ''userplugins'') \<and>
      exists exampleFs (''src/'' @ ''plugins'') \<and>
      count_list (readdir exampleFs (''src/'' @ ''plugins''))
        \<lparr>dirent_name = ''oneko.ts'', dirent_isDirectory = False\<rparr> = 1"
    by (simp add: exampleFs_def)
  have has: "hasNative exampleFs ''plugins'' \<lparr>dirent_name = ''voiceMessages'', dirent_isDirectory = True\<rparr>"
    "\<not> hasNative exampleFs ''plugins'' \<lparr>dirent_name = ''oneko.ts'', dirent_isDirectory = False\<rparr>"
    by (simp_all add: hasNative_def exampleFs_def)
  note t = native_manifest_by_scan [of exampleFs]
  from t [THEN conjunct1] spec
    t [THEN conjunct2, THEN conjunct2, rule_format, OF one]
    t [THEN conjunct2, THEN conjunct2, rule_format, OF two] has
  show ?thesis by simp
qed

subsection \<open>The helpers of discord.tsx\<close>

lemma dispatched_dispatch: "dispatched (dispatch host ev st) = dispatched st @ [ev]"
  by (simp add: dispatch_def)

lemma requested_dispatch: "requested (dispatch host ev st) = requested st"
  by (simp add: dispatch_def)

lemma fetchUserProfile_uncached_calls:
  assumes "profiles st uid = None" "respond host (profileRequest uid options) = Inr body"
  shows "requested (snd (fetchUserProfile host uid options st)) = requested st @ [profileRequest uid options]"
    and "dispatched (snd (fetchUserProfile host uid options st)) =
           dispatched st @
           [USER_PROFILE_FETCH_START uid, USER_UPDATE (body_user body), USER_PROFILE_FETCH_SUCCESS body] @
           (case (optionsGuildId options, body_guild_member body) of
              (Some gid, Some member) \<Rightarrow> if gid \<noteq> [] then [GUILD_MEMBER_PROFILE_UPDATE gid member] else []
            | _ \<Rightarrow> [])"
  using assms
  by (simp_all add: fetchUserProfile_def Let_def dispatched_dispatch requested_dispatch
      split: option.splits prod.splits)

lemma fetchUserProfile_rejected:
  assumes "profiles st uid = None" "respond host (profileRequest uid options) = Inl e"
  shows "fetchUserProfile host uid options st =
           (Inl e,
            st\<lparr>profiles := onDispatch host (USER_PROFILE_FETCH_START uid) (profiles st),
               dispatched := dispatched st @ [USER_PROFILE_FETCH_START uid],
               requested := requested st @ [profileRequest uid options]\<rparr>)"
  using assms by (simp add: fetchUserProfile_def Let_def dispatch_def)

lemma fetchUserProfile_uncached_requested:
  assumes "profiles st uid = None"
  shows "requested (snd (fetchUserProfile host uid options st)) = requested st @ [profileRequest uid options]"
  using assms
  by (simp add: fetchUserProfile_def Let_def dispatched_dispatch requested_dispatch
      split: option.splits prod.splits sum.splits)

lemma profiles_dispatch: "profiles (dispatch host ev st) = onDispatch host ev (profiles st)"
  by (simp add: dispatch_def)

lemma fetchUserProfile_success_result:
  assumes "profiles st uid = None" "respond host (profileRequest uid options) = Inr body"
  shows "fst (fetchUserProfile host uid options st) =
           Inr (profiles (snd (fetchUserProfile host uid options st)) uid)"
    and "profiles (snd (fetchUserProfile host uid options st)) =
           fold (onDispatch host)
             (drop (length (dispatched st)) (dispatched (snd (fetchUserProfile host uid options st))))
             (profiles st)"
  using assms
  by (simp_all add: fetchUserProfile_def Let_def dispatched_dispatch requested_dispatch profiles_dispatch
      split: option.splits prod.splits)

lemma profileRequest_explicit:
  "profileRequest uid options =
     \<lparr>url = ''/users/'' @ uid @ ''/profile'',
      query =
        \<lparr>query_with_mutual_guilds =
           (case options of None \<Rightarrow> False
            | Some opts \<Rightarrow> (case with_mutual_guilds opts of None \<Rightarrow> False | Some b \<Rightarrow> b)),
         query_with_mutual_friends_count =
           (case options of None \<Rightarrow> False
            | Some opts \<Rightarrow> (case with_mutual_friends_count opts of None \<Rightarrow> False | Some b \<Rightarrow> b)),
         query_friend_token = (case options of None \<Rightarrow> None | Some opts \<Rightarrow> friend_token opts),
         query_connections_role_id = (case options of None \<Rightarrow> None | Some opts \<Rightarrow> connections_role_id opts),
         query_guild_id = (case options of None \<Rightarrow> None | Some opts \<Rightarrow> guild_id opts)\<rparr>,
      oldFormErrors = True\<rparr>"
  by (simp add: profileRequest_def profileQuery_def split: option.splits)

text \<open>
  C9. For every user id and options, if \<open>UserProfileStore.getUserProfile(id)\<close> returns a
  cached profile, \<open>fetchUserProfile\<close> returns that profile and leaves the host state as it
  was: no \<open>FluxDispatcher.dispatch\<close> and no \<open>RestAPI.get\<close> is performed.
\<close>

theorem fetchUserProfile_cached:
  "profiles st uid = Some cached \<Longrightarrow> fetchUserProfile host uid options st = (Inr (Some cached), st)"
  by (simp add: fetchUserProfile_def)

theorem fetchUserProfile_cached_witness:
  "fetchUserProfile \<lparr>onDispatch = (\<lambda>ev m. m), respond = (\<lambda>r. Inl (Error ''offline''))\<rparr> ''42'' None
     \<lparr>profiles = [''42'' \<mapsto> ''profile of 42''], dispatched = [], requested = []\<rparr>
   = (Inr (Some ''profile of 42''),
      \<lparr>profiles = [''42'' \<mapsto> ''profile of 42''], dispatched = [], requested = []\<rparr>)"
  using fetchUserProfile_cached [of "\<lparr>profiles = [''42'' \<mapsto> ''profile of 42''], dispatched = [], requested = []\<rparr>"
      "''42''" "''profile of 42''" "\<lparr>onDispatch = (\<lambda>ev m. m), respond = (\<lambda>r. Inl (Error ''offline''))\<rparr>" None]
  by simp

text \<open>
  C1, as stated, fails: \<open>fetchUserProfile\<close> and \<open>openUserProfile\<close> branch. With a cached
  profile \<open>fetchUserProfile\<close> calls neither the dispatcher nor the REST client; without one
  it dispatches \<open>USER_PROFILE_FETCH_START\<close> and sends a request (here rejected, and the
  rejection propagates). \<open>openUserProfile\<close> throws when the host finds no user and calls
  \<open>openProfile\<close> otherwise.
\<close>

theorem discord_helpers_not_plain_wrappers:
  "snd (fetchUserProfile \<lparr>onDispatch = (\<lambda>ev m. m), respond = (\<lambda>r. Inl (Error ''offline''))\<rparr> ''42'' None
          \<lparr>profiles = [''42'' \<mapsto> ''profile of 42''], dispatched = [], requested = []\<rparr>)
     = \<lparr>profiles = [''42'' \<mapsto> ''profile of 42''], dispatched = [], requested = []\<rparr> \<and>
   requested (snd (fetchUserProfile \<lparr>onDispatch = (\<lambda>ev m. m), respond = (\<lambda>r. Inl (Error ''offline''))\<rparr> ''42'' None
          \<lparr>profiles = Map.empty, dispatched = [], requested = []\<rparr>))
     = [profileRequest ''42'' None] \<and>
   dispatched (snd (fetchUserProfile \<lparr>onDispatch = (\<lambda>ev m. m), respond = (\<lambda>r. Inl (Error ''offline''))\<rparr> ''42'' None
          \<lparr>profiles = Map.empty, dispatched = [], requested = []\<rparr>))
     = [USER_PROFILE_FETCH_START ''42''] \<and>
   openUserProfile (\<lambda>u. Inr (None :: string option)) None None ''42'' = Inl (Error ''No such user: 42'') \<and>
   openUserProfile (\<lambda>u. Inr (Some ''user 42'')) None (Some ''7'') ''42''
     = Inr \<lparr>userId = ''42'', guildId = None, channelId = Some ''7'',
            analyticsPage = ''DM Channel'', analyticsSection = ''Profile Popout''\<rparr>"
  by (simp add: fetchUserProfile_def openUserProfile_def dispatch_def truthyString_def)

text \<open>
  C1, amended. \<open>sendMessage\<close> forwards once to \<open>MessageActions.sendMessage\<close>, with the
  channel id, \<open>waitForChannelReady\<close>, \<open>extra\<close>, and \<open>data\<close> merged over the defaults
  \<open>content: ""\<close>, \<open>invalidEmojis: []\<close>, \<open>tts: false\<close>, \<open>validNonShortcutEmojis: []\<close>;
  \<open>openImageModal\<close> calls \<open>openModal\<close> once with the function that renders the
  \<open>ModalRoot\<close> around the \<open>ImageModal\<close>, whose props the caller's \<open>props\<close> override.
  \<open>openUserProfile\<close> passes a rejection of \<open>fetchUser\<close> on, throws \<open>No such user\<close> when the
  host returns no user and otherwise calls \<open>openProfile\<close> once. \<open>fetchUserProfile\<close>
  returns a cached profile without any host call. Without one it sends exactly one
  request, for \<open>/users/<id>/profile\<close> with the options merged over the two \<open>false\<close>
  defaults. When the request is rejected the rejection is passed on after the start
  event alone. When it succeeds the start, user-update and success events are
  dispatched in this order, followed by the guild-member update when a non-empty
  \<open>guild_id\<close> was given and the body has a guild member; the store is changed by these
  events only, and the result is the profile the store then holds.
\<close>

theorem discord_helpers_behaviour:
  "sendMessage send channel data wait extra =
     send channel
       \<lparr>content = (case contentOpt data of None \<Rightarrow> [] | Some c \<Rightarrow> c),
        invalidEmojis = (case invalidEmojisOpt data of None \<Rightarrow> [] | Some es \<Rightarrow> es),
        tts = (case ttsOpt data of None \<Rightarrow> False | Some t \<Rightarrow> t),
        validNonShortcutEmojis = (case validNonShortcutEmojisOpt data of None \<Rightarrow> [] | Some es \<Rightarrow> es)\<rparr>
       wait extra \<and>
   openImageModal openModal classes link props =
     openModal
       (\<lambda>modalProps.
          Element ''ModalRoot''
            (modalProps ++ [''className'' \<mapsto> PStr (modalClass classes), ''size'' \<mapsto> PEnum ''ModalSize.DYNAMIC''])
            [Element ''ImageModal''
               ([''className'' \<mapsto> PStr (imageClass classes),
                 ''original'' \<mapsto> PStr link,
                 ''placeholder'' \<mapsto> PStr link,
                 ''src'' \<mapsto> PStr link,
                 ''renderLinkComponent'' \<mapsto> PRender ''MaskedLink'',
                 ''shouldHideMediaOptions'' \<mapsto> PBool False,
                 ''shouldAnimate'' \<mapsto> PBool True]
                ++ (case props of None \<Rightarrow> Map.empty | Some p \<Rightarrow> p))
               []]) \<and>
   (\<forall>e. fetchUser uid = Inl e \<longrightarrow> openUserProfile fetchUser selGuild selChannel uid = Inl e) \<and>
   (fetchUser uid = Inr None \<longrightarrow>
      openUserProfile fetchUser selGuild selChannel uid = Inl (Error (''No such user: '' @ uid))) \<and>
   (\<forall>user. fetchUser uid = Inr (Some user) \<longrightarrow>
      openUserProfile fetchUser selGuild selChannel uid =
        Inr \<lparr>userId = uid, guildId = selGuild, channelId = selChannel,
             analyticsPage =
               (case selGuild of None \<Rightarrow> ''DM Channel''
                | Some g \<Rightarrow> if g = [] then ''DM Channel'' else ''Guild Channel''),
             analyticsSection = ''Profile Popout''\<rparr>) \<and>
   (\<forall>cached. profiles st uid = Some cached \<longrightarrow>
      fetchUserProfile host uid options st = (Inr (Some cached), st)) \<and>
   profileRequest uid options =
     \<lparr>url = ''/users/'' @ uid @ ''/profile'',
      query =
        \<lparr>query_with_mutual_guilds =
           (case options of None \<Rightarrow> False
            | Some opts \<Rightarrow> (case with_mutual_guilds opts of None \<Rightarrow> False | Some b \<Rightarrow> b)),
         query_with_mutual_friends_count =
           (case options of None \<Rightarrow> False
            | Some opts \<Rightarrow> (case with_mutual_friends_count opts of None \<Rightarrow> False | Some b \<Rightarrow> b)),
         query_friend_token = (case options of None \<Rightarrow> None | Some opts \<Rightarrow> friend_token opts),
         query_connections_role_id = (case options of None \<Rightarrow> None | Some opts \<Rightarrow> connections_role_id opts),
         query_guild_id = (case options of None \<Rightarrow> None | Some opts \<Rightarrow> guild_id opts)\<rparr>,
      oldFormErrors = True\<rparr> \<and>
   (profiles st uid = None \<longrightarrow>
      requested (snd (fetchUserProfile host uid options st)) = requested st @ [profileRequest uid options]) \<and>
   (\<forall>e. profiles st uid = None \<and> respond host (profileRequest uid options) = Inl e \<longrightarrow>
      fetchUserProfile host uid options st =
        (Inl e,
         st\<lparr>profiles := onDispatch host (USER_PROFILE_FETCH_START uid) (profiles st),
            dispatched := dispatched st @ [USER_PROFILE_FETCH_START uid],
            requested := requested st @ [profileRequest uid options]\<rparr>)) \<and>
   (\<forall>body. profiles st uid = None \<and> respond host (profileRequest uid options) = Inr body \<longrightarrow>
      dispatched (snd (fetchUserProfile host uid options st)) =
        dispatched st @
        [USER_PROFILE_FETCH_START uid, USER_UPDATE (body_user body), USER_PROFILE_FETCH_SUCCESS body] @
        (case (case options of None \<Rightarrow> None | Some opts \<Rightarrow> guild_id opts, body_guild_member body) of
           (Some gid, Some member) \<Rightarrow> if gid \<noteq> [] then [GUILD_MEMBER_PROFILE_UPDATE gid member] else []
         | _ \<Rightarrow> []) \<and>
      profiles (snd (fetchUserProfile host uid options st)) =
        fold (onDispatch host)
          (drop (length (dispatched st)) (dispatched (snd (fetchUserProfile host uid options st))))
          (profiles st) \<and>
      fst (fetchUserProfile host uid options st) =
        Inr (profiles (snd (fetchUserProfile host uid options st)) uid))"
proof (intro conjI allI impI)
  show "sendMessage send channel data wait extra =
     send channel
       \<lparr>content = (case contentOpt data of None \<Rightarrow> [] | Some c \<Rightarrow> c),
        invalidEmojis = (case invalidEmojisOpt data of None \<Rightarrow> [] | Some es \<Rightarrow> es),
        tts = (case ttsOpt data of None \<Rightarrow> False | Some t \<Rightarrow> t),
        validNonShortcutEmojis = (case validNonShortcutEmojisOpt data of None \<Rightarrow> [] | Some es \<Rightarrow> es)\<rparr>
       wait extra"
    by (simp add: sendMessage_def messageData_def)
  have render: "imageModalRender classes link props =
       (\<lambda>modalProps.
          Element ''ModalRoot''
            (modalProps ++ [''className'' \<mapsto> PStr (modalClass classes), ''size'' \<mapsto> PEnum ''ModalSize.DYNAMIC''])
            [Element ''ImageModal''
               ([''className'' \<mapsto> PStr (imageClass classes),
                 ''original'' \<mapsto> PStr link,
                 ''placeholder'' \<mapsto> PStr link,
                 ''src'' \<mapsto> PStr link,
                 ''renderLinkComponent'' \<mapsto> PRender ''MaskedLink'',
                 ''shouldHideMediaOptions'' \<mapsto> PBool False,
                 ''shouldAnimate'' \<mapsto> PBool True]
                ++ (case props of None \<Rightarrow> Map.empty | Some p \<Rightarrow> p))
               []])"
    by (rule ext) (simp only: imageModalRender_def)
  show "openImageModal openModal classes link props =
     openModal
       (\<lambda>modalProps.
          Element ''ModalRoot''
            (modalProps ++ [''className'' \<mapsto> PStr (modalClass classes), ''size'' \<mapsto> PEnum ''ModalSize.DYNAMIC''])
            [Element ''ImageModal''
               ([''className'' \<mapsto> PStr (imageClass classes),
                 ''original'' \<mapsto> PStr link,
                 ''placeholder'' \<mapsto> PStr link,
                 ''src'' \<mapsto> PStr link,
                 ''renderLinkComponent'' \<mapsto> PRender ''MaskedLink'',
                 ''shouldHideMediaOptions'' \<mapsto> PBool False,
                 ''shouldAnimate'' \<mapsto> PBool True]
                ++ (case props of None \<Rightarrow> Map.empty | Some p \<Rightarrow> p))
               []])"
    by (simp only: openImageModal_def render)
  show "openUserProfile fetchUser selGuild selChannel uid = Inl e"
    if "fetchUser uid = Inl e" for e
    using that by (simp add: openUserProfile_def)
  show "openUserProfile fetchUser selGuild selChannel uid = Inl (Error (''No such user: '' @ uid))"
    if "fetchUser uid = Inr None"
    using that by (simp add: openUserProfile_def)
  show "openUserProfile fetchUser selGuild selChannel uid =
        Inr \<lparr>userId = uid, guildId = selGuild, channelId = selChannel,
             analyticsPage =
               (case selGuild of None \<Rightarrow> ''DM Channel''
                | Some g \<Rightarrow> if g = [] then ''DM Channel'' else ''Guild Channel''),
             analyticsSection = ''Profile Popout''\<rparr>"
    if "fetchUser uid = Inr (Some user)" for user
    using that by (simp add: openUserProfile_def truthyString_def split: option.splits)
  show "fetchUserProfile host uid options st = (Inr (Some cached), st)"
    if "profiles st uid = Some cached" for cached
    using that by (simp add: fetchUserProfile_def)
  show "profileRequest uid options =
     \<lparr>url = ''/users/'' @ uid @ ''/profile'',
      query =
        \<lparr>query_with_mutual_guilds =
           (case options of None \<Rightarrow> False
            | Some opts \<Rightarrow> (case with_mutual_guilds opts of None \<Rightarrow> False | Some b \<Rightarrow> b)),
         query_with_mutual_friends_count =
           (case options of None \<Rightarrow> False
            | Some opts \<Rightarrow> (case with_mutual_friends_count opts of None \<Rightarrow> False | Some b \<Rightarrow> b)),
         query_friend_token = (case options of None \<Rightarrow> None | Some opts \<Rightarrow> friend_token opts),
         query_connections_role_id = (case options of None \<Rightarrow> None | Some opts \<Rightarrow> connections_role_id opts),
         query_guild_id = (case options of None \<Rightarrow> None | Some opts \<Rightarrow> guild_id opts)\<rparr>,
      oldFormErrors = True\<rparr>"
    by (rule profileRequest_explicit)
  show "requested (snd (fetchUserProfile host uid options st)) = requested st @ [profileRequest uid options]"
    if "profiles st uid = None"
    using that by (rule fetchUserProfile_uncached_requested)
  show "fetchUserProfile host uid options st =
        (Inl e,
         st\<lparr>profiles := onDispatch host (USER_PROFILE_FETCH_START uid) (profiles st),
            dispatched := dispatched st @ [USER_PROFILE_FETCH_START uid],
            requested := requested st @ [profileRequest uid options]\<rparr>)"
    if "profiles st uid = None \<and> respond host (profileRequest uid options) = Inl e" for e
    using that fetchUserProfile_rejected [of st uid host options e] by blast
  show "dispatched (snd (fetchUserProfile host uid options st)) =
        dispatched st @
        [USER_PROFILE_FETCH_START uid, USER_UPDATE (body_user body), USER_PROFILE_FETCH_SUCCESS body] @
        (case (case options of None \<Rightarrow> None | Some opts \<Rightarrow> guild_id opts, body_guild_member body) of
           (Some gid, Some member) \<Rightarrow> if gid \<noteq> [] then [GUILD_MEMBER_PROFILE_UPDATE gid member] else []
         | _ \<Rightarrow> [])"
    if "profiles st uid = None \<and> respond host (profileRequest uid options) = Inr body" for body
    using that fetchUserProfile_uncached_calls(2) [of st uid host options body]
    by (simp add: optionsGuildId_def)
  show "profiles (snd (fetchUserProfile host uid options st)) =
        fold (onDispatch host)
          (drop (length (dispatched st)) (dispatched (snd (fetchUserProfile host uid options st))))
          (profiles st)"
    if "profiles st uid = None \<and> respond host (profileRequest uid options) = Inr body" for body
    using that fetchUserProfile_success_result(2) [of st uid host options body] by blast
  show "fst (fetchUserProfile host uid options st) =
        Inr (profiles (snd (fetchUserProfile host uid options st)) uid)"
    if "profiles st uid = None \<and> respond host (profileRequest uid options) = Inr body" for body
    using that fetchUserProfile_success_result(1) [of st uid host options body] by blast
qed

theorem discord_helpers_behaviour_witness:
  "sendMessage (\<lambda>ch m w x. (ch, m, w, x)) ''123''
       \<lparr>contentOpt = Some ''hi'', invalidEmojisOpt = None, ttsOpt = None, validNonShortcutEmojisOpt = None\<rparr>
       (None :: bool option) (None :: nat option)
     = (''123'', \<lparr>content = ''hi'', invalidEmojis = ([] :: nat list), tts = False, validNonShortcutEmojis = []\<rparr>,
        None, None) \<and>
   openImageModal
       (\<lambda>render. case render Map.empty of
          Element n ps kids \<Rightarrow>
            (case kids of
               [Element n2 ps2 ks] \<Rightarrow>
                 (case (ps ''className'', ps2 ''src'', ps2 ''original'') of
                    (Some (PStr c), Some (PStr u), Some (PStr v)) \<Rightarrow> n @ ''.'' @ c @ '' '' @ n2 @ '' '' @ u @ '' '' @ v
                  | _ \<Rightarrow> ''?'')
             | _ \<Rightarrow> ''?''))
       \<lparr>modalClass = ''modal'', imageClass = ''image''\<rparr> ''cat.png'' (Some [''src'' \<mapsto> PStr ''other.png''])
     = ''ModalRoot.modal ImageModal other.png cat.png'' \<and>
   openUserProfile (\<lambda>u. Inl (Error ''404'') :: JsError + string option) (Some ''1'') (Some ''7'') ''42''
     = Inl (Error ''404'') \<and>
   openUserProfile (\<lambda>u. Inr (None :: string option)) (Some ''1'') (Some ''7'') ''42''
     = Inl (Error ''No such user: 42'') \<and>
   openUserProfile (\<lambda>u. Inr (Some ''user 42'')) (Some ''1'') (Some ''7'') ''42''
     = Inr \<lparr>userId = ''42'', guildId = Some ''1'', channelId = Some ''7'',
            analyticsPage = ''Guild Channel'', analyticsSection = ''Profile Popout''\<rparr> \<and>
   fetchUserProfile \<lparr>onDispatch = (\<lambda>ev m. m), respond = (\<lambda>r. Inl (Error ''offline''))\<rparr> ''42'' None
       \<lparr>profiles = [''42'' \<mapsto> ''profile of 42''], dispatched = [], requested = []\<rparr>
     = (Inr (Some ''profile of 42''),
        \<lparr>profiles = [''42'' \<mapsto> ''profile of 42''], dispatched = [], requested = []\<rparr>) \<and>
   fetchUserProfile \<lparr>onDispatch = (\<lambda>ev m. m), respond = (\<lambda>r. Inl (Error ''offline''))\<rparr> ''42'' None
       \<lparr>profiles = (Map.empty :: string \<rightharpoonup> string), dispatched = [], requested = []\<rparr>
     = (Inl (Error ''offline''),
        \<lparr>profiles = Map.empty, dispatched = [USER_PROFILE_FETCH_START ''42''],
         requested =
           [\<lparr>url = ''/users/42/profile'',
             query = \<lparr>query_with_mutual_guilds = False, query_with_mutual_friends_count = False,
                      query_friend_token = None, query_connections_role_id = None, query_guild_id = None\<rparr>,
             oldFormErrors = True\<rparr>]\<rparr>) \<and>
   requested (snd (fetchUserProfile
       \<lparr>onDispatch = (\<lambda>ev m. case ev of USER_PROFILE_FETCH_SUCCESS b \<Rightarrow> m(''42'' \<mapsto> body_rest b) | _ \<Rightarrow> m),
        respond = (\<lambda>r. Inr \<lparr>body_user = ''user 42'', body_guild_member = Some ''member 42'', body_rest = ''bio''\<rparr>)\<rparr>
       ''42''
       (Some \<lparr>friend_token = None, connections_role_id = None, guild_id = Some ''1'',
              with_mutual_guilds = Some True, with_mutual_friends_count = None\<rparr>)
       \<lparr>profiles = Map.empty, dispatched = [], requested = []\<rparr>))
     = [\<lparr>url = ''/users/42/profile'',
         query = \<lparr>query_with_mutual_guilds = True, query_with_mutual_friends_count = False,
                  query_friend_token = None, query_connections_role_id = None, query_guild_id = Some ''1''\<rparr>,
         oldFormErrors = True\<rparr>] \<and>
   dispatched (snd (fetchUserProfile
       \<lparr>onDispatch = (\<lambda>ev m. case ev of USER_PROFILE_FETCH_SUCCESS b \<Rightarrow> m(''42'' \<mapsto> body_rest b) | _ \<Rightarrow> m),
        respond = (\<lambda>r. Inr \<lparr>body_user = ''user 42'', body_guild_member = Some ''member 42'', body_rest = ''bio''\<rparr>)\<rparr>
       ''42''
       (Some \<lparr>friend_token = None, connections_role_id = None, guild_id = Some ''1'',
              with_mutual_guilds = Some True, with_mutual_friends_count = None\<rparr>)
       \<lparr>profiles = Map.empty, dispatched = [], requested = []\<rparr>))
     = [USER_PROFILE_FETCH_START ''42'',
        USER_UPDATE ''user 42'',
        USER_PROFILE_FETCH_SUCCESS \<lparr>body_user = ''user 42'', body_guild_member = Some ''member 42'', body_rest = ''bio''\<rparr>,
        GUILD_MEMBER_PROFILE_UPDATE ''1'' ''member 42''] \<and>
   fst (fetchUserProfile
       \<lparr>onDispatch = (\<lambda>ev m. case ev of USER_PROFILE_FETCH_SUCCESS b \<Rightarrow> m(''42'' \<mapsto> body_rest b) | _ \<Rightarrow> m),
        respond = (\<lambda>r. Inr \<lparr>body_user = ''user 42'', body_guild_member = Some ''member 42'', body_rest = ''bio''\<rparr>)\<rparr>
       ''42''
       (Some \<lparr>friend_token = None, connections_role_id = None, guild_id = Some ''1'',
              with_mutual_guilds = Some True, with_mutual_friends_count = None\<rparr>)
       \<lparr>profiles = Map.empty, dispatched = [], requested = []\<rparr>)
     = Inr (Some ''bio'')"
proof -
  let ?send = "\<lambda>(ch :: string) (m :: nat MessageData) (w :: bool option) (x :: nat option). (ch, m, w, x)"
  let ?data = "\<lparr>contentOpt = Some ''hi'', invalidEmojisOpt = (None :: nat list option), ttsOpt = None,
                validNonShortcutEmojisOpt = None\<rparr>"
  let ?probe = "\<lambda>render. case render Map.empty of
          Element n ps kids \<Rightarrow>
            (case kids of
               [Element n2 ps2 ks] \<Rightarrow>
                 (case (ps ''className'', ps2 ''src'', ps2 ''original'') of
                    (Some (PStr c), Some (PStr u), Some (PStr v)) \<Rightarrow> n @ ''.'' @ c @ '' '' @ n2 @ '' '' @ u @ '' '' @ v
                  | _ \<Rightarrow> ''?'')
             | _ \<Rightarrow> ''?'')"
  let ?classes = "\<lparr>modalClass = ''modal'', imageClass = ''image''\<rparr>"
  let ?props = "Some [''src'' \<mapsto> PStr ''other.png'']"
  let ?off = "\<lparr>onDispatch = (\<lambda>ev m. m), respond = (\<lambda>r. Inl (Error ''offline''))\<rparr> :: string Host"
  let ?body = "\<lparr>body_user = ''user 42'', body_guild_member = Some ''member 42'', body_rest = ''bio''\<rparr>"
  let ?on = "\<lparr>onDispatch = (\<lambda>ev m. case ev of USER_PROFILE_FETCH_SUCCESS b \<Rightarrow> m(''42'' \<mapsto> body_rest b) | _ \<Rightarrow> m),
              respond = (\<lambda>r. Inr ?body)\<rparr> :: string Host"
  let ?opts = "Some \<lparr>friend_token = None, connections_role_id = None, guild_id = Some ''1'',
              with_mutual_guilds = Some True, with_mutual_friends_count = None\<rparr>"
  let ?cached = "\<lparr>profiles = [''42'' \<mapsto> ''profile of 42''], dispatched = [], requested = []\<rparr> :: string Discord"
  let ?empty = "\<lparr>profiles = Map.empty, dispatched = [], requested = []\<rparr> :: string Discord"
  note A = discord_helpers_behaviour
      [where send = ?send and channel = "''123''" and data = ?data and wait = None and extra = None
         and openModal = ?probe and classes = ?classes and link = "''cat.png''" and props = ?props
         and fetchUser = "\<lambda>u. Inr (None :: string option)" and uid = "''42''"
         and selGuild = "Some ''1''" and selChannel = "Some ''7''"
         and host = ?off and options = None and st = ?cached]
  note B = discord_helpers_behaviour
      [where send = ?send and channel = "''123''" and data = ?data and wait = None and extra = None
         and openModal = ?probe and classes = ?classes and link = "''cat.png''" and props = ?props
         and fetchUser = "\<lambda>u. Inr (Some ''user 42'')" and uid = "''42''"
         and selGuild = "Some ''1''" and selChannel = "Some ''7''"
         and host = ?on and options = ?opts and st = ?empty]
  note C = discord_helpers_behaviour
      [where send = ?send and channel = "''123''" and data = ?data and wait = None and extra = None
         and openModal = ?probe and classes = ?classes and link = "''cat.png''" and props = ?props
         and fetchUser = "\<lambda>u. Inl (Error ''404'') :: JsError + string option" and uid = "''42''"
         and selGuild = "Some ''1''" and selChannel = "Some ''7''"
         and host = ?off and options = None and st = ?empty]
  note c2 = conjunct2
  have w1: "sendMessage ?send ''123'' ?data None None
      = (''123'', \<lparr>content = ''hi'', invalidEmojis = [], tts = False, validNonShortcutEmojis = []\<rparr>, None, None)"
    using A [THEN conjunct1] by simp
  have w2: "openImageModal ?probe ?classes ''cat.png'' ?props = ''ModalRoot.modal ImageModal other.png cat.png''"
    using A [THEN c2, THEN conjunct1] by (simp add: map_add_def)
  have w3: "openUserProfile (\<lambda>u. Inl (Error ''404'') :: JsError + string option) (Some ''1'') (Some ''7'') ''42''
      = Inl (Error ''404'')"
    using C [THEN c2, THEN c2, THEN conjunct1] by simp
  have w4: "openUserProfile (\<lambda>u. Inr (None :: string option)) (Some ''1'') (Some ''7'') ''42''
      = Inl (Error ''No such user: 42'')"
    using A [THEN c2, THEN c2, THEN c2, THEN conjunct1] by simp
  have w5: "openUserProfile (\<lambda>u. Inr (Some ''user 42'')) (Some ''1'') (Some ''7'') ''42''
      = Inr \<lparr>userId = ''42'', guildId = Some ''1'', channelId = Some ''7'',
            analyticsPage = ''Guild Channel'', analyticsSection = ''Profile Popout''\<rparr>"
    using B [THEN c2, THEN c2, THEN c2, THEN c2, THEN conjunct1] by simp
  have w6: "fetchUserProfile ?off ''42'' None ?cached = (Inr (Some ''profile of 42''), ?cached)"
    using A [THEN c2, THEN c2, THEN c2, THEN c2, THEN c2, THEN conjunct1] by simp
  note reqB = B [THEN c2, THEN c2, THEN c2, THEN c2, THEN c2, THEN c2, THEN conjunct1]
  note reqC = C [THEN c2, THEN c2, THEN c2, THEN c2, THEN c2, THEN c2, THEN conjunct1]
  have w7: "fetchUserProfile ?off ''42'' None ?empty
      = (Inl (Error ''offline''),
        \<lparr>profiles = Map.empty, dispatched = [USER_PROFILE_FETCH_START ''42''],
         requested =
           [\<lparr>url = ''/users/42/profile'',
             query = \<lparr>query_with_mutual_guilds = False, query_with_mutual_friends_count = False,
                      query_friend_token = None, query_connections_role_id = None, query_guild_id = None\<rparr>,
             oldFormErrors = True\<rparr>]\<rparr>)"
    using C [THEN c2, THEN c2, THEN c2, THEN c2, THEN c2, THEN c2, THEN c2, THEN c2, THEN conjunct1]
    by (simp add: reqC)
  have w8: "requested (snd (fetchUserProfile ?on ''42'' ?opts ?empty))
      = [\<lparr>url = ''/users/42/profile'',
         query = \<lparr>query_with_mutual_guilds = True, query_with_mutual_friends_count = False,
                  query_friend_token = None, query_connections_role_id = None, query_guild_id = Some ''1''\<rparr>,
         oldFormErrors = True\<rparr>]"
    using B [THEN c2, THEN c2, THEN c2, THEN c2, THEN c2, THEN c2, THEN c2, THEN conjunct1]
    by (simp add: reqB)
  have pre: "profiles ?empty ''42'' = None \<and> respond ?on (profileRequest ''42'' ?opts) = Inr ?body"
    by simp
  note S = B [THEN c2, THEN c2, THEN c2, THEN c2, THEN c2, THEN c2, THEN c2, THEN c2, THEN c2,
      rule_format, OF pre]
  have w9: "dispatched (snd (fetchUserProfile ?on ''42'' ?opts ?empty))
      = [USER_PROFILE_FETCH_START ''42'', USER_UPDATE ''user 42'', USER_PROFILE_FETCH_SUCCESS ?body,
         GUILD_MEMBER_PROFILE_UPDATE ''1'' ''member 42'']"
    using S [THEN conjunct1] by simp
  have w10: "fst (fetchUserProfile ?on ''42'' ?opts ?empty) = Inr (Some ''bio'')"
    using S [THEN c2, THEN conjunct1] S [THEN c2, THEN c2] by (simp add: w9)
  from w1 w2 w3 w4 w5 w6 w7 w8 w9 w10 show ?thesis by blast
qed

subsection \<open>The extension kept by anonymise\<close>

lemma dot_not_word: "\<not> isWordChar (CHR ''.'')"
  by (simp add: isWordChar_def)

lemma tarExtMatchesHere_iff:
  "tarExtMatchesHere s \<longleftrightarrow> (\<exists>w. s = ''.tar.'' @ w \<and> w \<noteq> [] \<and> list_all isWordChar w)"
proof
  assume h: "tarExtMatchesHere s"
  then have "s = ''.tar.'' @ drop 5 s"
    unfolding tarExtMatchesHere_def by (metis append_take_drop_id)
  with h show "\<exists>w. s = ''.tar.'' @ w \<and> w \<noteq> [] \<and> list_all isWordChar w"
    unfolding tarExtMatchesHere_def by blast
next
  assume "\<exists>w. s = ''.tar.'' @ w \<and> w \<noteq> [] \<and> list_all isWordChar w"
  then show "tarExtMatchesHere s"
    unfolding tarExtMatchesHere_def by auto
qed

lemma last_occurrence_unique:
  "x \<notin> set ys \<Longrightarrow> x \<notin> set ys' \<Longrightarrow> xs @ x # ys = xs' @ x # ys' \<Longrightarrow> xs = xs' \<and> ys = ys'"
proof (induction xs arbitrary: xs')
  case Nil
  then show ?case by (cases xs') auto
next
  case (Cons a xs)
  then show ?case by (cases xs') auto
qed

lemma tar_suffix_unique:
  assumes "pre @ ''.tar.'' @ w = pre' @ ''.tar.'' @ w'"
    and "list_all isWordChar w" and "list_all isWordChar w'"
  shows "pre = pre' \<and> w = w'"
proof -
  have nd: "CHR ''.'' \<notin> set w" "CHR ''.'' \<notin> set w'"
    using assms(2,3) dot_not_word by (auto simp: list_all_iff)
  have "(pre @ ''.tar'') @ CHR ''.'' # w = (pre' @ ''.tar'') @ CHR ''.'' # w'"
    using assms(1) by simp
  then have "pre @ ''.tar'' = pre' @ ''.tar'' \<and> w = w'"
    by (rule last_occurrence_unique [OF nd])
  then show ?thesis by simp
qed

lemma exec_from_some:
  assumes "w \<noteq> []" "list_all isWordChar w"
  shows "tarExtMatcherExecFrom i (pre @ ''.tar.'' @ w) = Some (i + length pre)"
proof (induction pre arbitrary: i)
  case Nil
  have "tarExtMatchesHere (''.tar.'' @ w)"
    using assms tarExtMatchesHere_iff by blast
  then show ?case by simp
next
  case (Cons c pre)
  have "\<not> tarExtMatchesHere ((c # pre) @ ''.tar.'' @ w)"
  proof
    assume "tarExtMatchesHere ((c # pre) @ ''.tar.'' @ w)"
    then obtain w' where w': "(c # pre) @ ''.tar.'' @ w = [] @ ''.tar.'' @ w'" "list_all isWordChar w'"
      using tarExtMatchesHere_iff by auto
    from tar_suffix_unique [OF w'(1) assms(2) w'(2)] show False by simp
  qed
  then show ?case using Cons.IH [of "Suc i"] by simp
qed

lemma exec_from_none:
  assumes "\<not> (\<exists>pre w. s = pre @ ''.tar.'' @ w \<and> w \<noteq> [] \<and> list_all isWordChar w)"
  shows "tarExtMatcherExecFrom i s = None"
  using assms
proof (induction s arbitrary: i)
  case Nil
  then show ?case by simp
next
  case (Cons c cs)
  have a: "\<not> tarExtMatchesHere (c # cs)"
  proof
    assume "tarExtMatchesHere (c # cs)"
    then obtain w where "c # cs = [] @ ''.tar.'' @ w" "w \<noteq> []" "list_all isWordChar w"
      using tarExtMatchesHere_iff by auto
    with Cons.prems show False by blast
  qed
  have b: "\<not> (\<exists>pre w. cs = pre @ ''.tar.'' @ w \<and> w \<noteq> [] \<and> list_all isWordChar w)"
  proof
    assume "\<exists>pre w. cs = pre @ ''.tar.'' @ w \<and> w \<noteq> [] \<and> list_all isWordChar w"
    then obtain pre w where "cs = pre @ ''.tar.'' @ w" "w \<noteq> []" "list_all isWordChar w" by blast
    then have "c # cs = (c # pre) @ ''.tar.'' @ w" by simp
    with Cons.prems \<open>w \<noteq> []\<close> \<open>list_all isWordChar w\<close> show False by blast
  qed
  from a Cons.IH [OF b] show ?case by simp
qed

lemma lastIndexOf_absent: "c \<notin> set s \<Longrightarrow> lastIndexOf s c = - 1"
proof -
  assume "c \<notin> set s"
  then have "filter (\<lambda>i. s ! i = c) (rev [0..<length s]) = []"
    by (auto simp: filter_empty_conv)
  then show ?thesis by (simp add: lastIndexOf_def)
qed

lemma lastIndexOf_last:
  assumes "c \<notin> set e"
  shows "lastIndexOf (pre @ c # e) c = int (length pre)"
proof -
  define s where "s = pre @ c # e"
  define n where "n = length s"
  define P where "P = (\<lambda>i. s ! i = c)"
  have n: "n = length pre + Suc (length e)"
    by (simp add: n_def s_def)
  have "[0..<length pre + Suc (length e)] = [0..<length pre] @ [length pre..<length pre + Suc (length e)]"
    by (rule upt_add_eq_append) simp
  moreover have "[length pre..<length pre + Suc (length e)] = length pre # [Suc (length pre)..<length pre + Suc (length e)]"
    by (rule upt_conv_Cons) simp
  ultimately have split: "[0..<n] = [0..<length pre] @ length pre # [Suc (length pre)..<n]"
    by (simp only: n)
  have here: "P (length pre)"
    by (simp add: P_def s_def)
  have "\<forall>i\<in>set [Suc (length pre)..<n]. \<not> P i"
  proof
    fix i assume "i \<in> set [Suc (length pre)..<n]"
    then have h: "Suc (length pre) \<le> i" "i < n" by (simp_all only: set_upt atLeastLessThan_iff)
    then have "s ! i = e ! (i - Suc (length pre))"
      by (simp add: s_def nth_append nth_Cons')
    moreover have "i - Suc (length pre) < length e" using h n by simp
    ultimately show "\<not> P i" using assms nth_mem unfolding P_def by metis
  qed
  then have tail: "filter P [Suc (length pre)..<n] = []"
    by (simp only: filter_empty_conv)
  have "filter P (rev [0..<n]) = rev (filter P [0..<n])"
    by (simp only: rev_filter)
  also have "\<dots> = length pre # rev (filter P [0..<length pre])"
    by (simp only: split filter_append filter.simps here tail if_True rev_append rev.simps append_Nil append_Cons)
  finally have "filter P (rev [0..<n]) = length pre # rev (filter P [0..<length pre])" .
  then show ?thesis
    unfolding lastIndexOf_def P_def n_def s_def by simp
qed

lemma exec_some:
  "w \<noteq> [] \<Longrightarrow> list_all isWordChar w \<Longrightarrow> tarExtMatcherExec (pre @ ''.tar.'' @ w) = Some (length pre)"
  using exec_from_some [of w 0 pre] by (simp add: tarExtMatcherExec_def)

lemma exec_none_iff:
  "tarExtMatcherExec s = None \<longleftrightarrow>
     \<not> (\<exists>pre w. s = pre @ ''.tar.'' @ w \<and> w \<noteq> [] \<and> list_all isWordChar w)"
proof
  assume n: "tarExtMatcherExec s = None"
  show "\<not> (\<exists>pre w. s = pre @ ''.tar.'' @ w \<and> w \<noteq> [] \<and> list_all isWordChar w)"
  proof
    assume "\<exists>pre w. s = pre @ ''.tar.'' @ w \<and> w \<noteq> [] \<and> list_all isWordChar w"
    then obtain pre w where "s = pre @ ''.tar.'' @ w" "w \<noteq> []" "list_all isWordChar w" by blast
    then have "tarExtMatcherExec s = Some (length pre)" using exec_some by blast
    with n show False by simp
  qed
next
  assume "\<not> (\<exists>pre w. s = pre @ ''.tar.'' @ w \<and> w \<noteq> [] \<and> list_all isWordChar w)"
  then show "tarExtMatcherExec s = None"
    unfolding tarExtMatcherExec_def by (rule exec_from_none)
qed

lemma ext_tar:
  assumes "w \<noteq> []" "list_all isWordChar w"
  shows "anonymiseExt (pre @ ''.tar.'' @ w) = ''.tar.'' @ w"
  using exec_some [OF assms, of pre] by (simp add: anonymiseExt_def slice_def)

lemma ext_last_dot:
  assumes "tarExtMatcherExec (pre @ CHR ''.'' # e) = None" "CHR ''.'' \<notin> set e"
  shows "anonymiseExt (pre @ CHR ''.'' # e) = CHR ''.'' # e"
  using assms(1) lastIndexOf_last [OF assms(2), of pre]
  by (simp add: anonymiseExt_def slice_def)

lemma ext_no_dot:
  assumes "CHR ''.'' \<notin> set s"
  shows "anonymiseExt s = []"
proof -
  have "\<not> (\<exists>pre w. s = pre @ ''.tar.'' @ w \<and> w \<noteq> [] \<and> list_all isWordChar w)"
  proof
    assume "\<exists>pre w. s = pre @ ''.tar.'' @ w \<and> w \<noteq> [] \<and> list_all isWordChar w"
    then obtain pre w where "s = pre @ ''.tar.'' @ w" by blast
    then have "CHR ''.'' \<in> set s" by simp
    with assms show False by simp
  qed
  then have "tarExtMatcherExec s = None" by (rule iffD2 [OF exec_none_iff])
  then show ?thesis
    using lastIndexOf_absent [OF assms] by (simp add: anonymiseExt_def)
qed

text \<open>
  C8. For every input filename, \<open>anonymise\<close> returns the new base name followed by the
  original filename's extension: the whole suffix matched by \<open>/\.tar\.\w+$/\<close> when the name
  matches it, otherwise the suffix starting at the last \<open>.\<close> of the name, and the empty
  string when the name contains no \<open>.\<close>. The new base name \<open>anonymiseName\<close> does not
  depend on the filename.
\<close>

theorem anonymise_keeps_extension:
  "(\<forall>pre w. name = pre @ ''.tar.'' @ w \<and> w \<noteq> [] \<and> list_all isWordChar w \<longrightarrow>
      anonymise settings env name = anonymiseName settings env @ ''.tar.'' @ w) \<and>
   (\<not> (\<exists>pre w. name = pre @ ''.tar.'' @ w \<and> w \<noteq> [] \<and> list_all isWordChar w) \<longrightarrow>
      (\<forall>pre e. name = pre @ ''.'' @ e \<and> CHR ''.'' \<notin> set e \<longrightarrow>
         anonymise settings env name = anonymiseName settings env @ ''.'' @ e)) \<and>
   (CHR ''.'' \<notin> set name \<longrightarrow> anonymise settings env name = anonymiseName settings env)"
proof (intro conjI allI impI)
  fix pre w
  assume "name = pre @ ''.tar.'' @ w \<and> w \<noteq> [] \<and> list_all isWordChar w"
  then show "anonymise settings env name = anonymiseName settings env @ ''.tar.'' @ w"
    using ext_tar [of w pre] by (simp add: anonymise_def)
next
  fix pre e
  assume n: "\<not> (\<exists>pre w. name = pre @ ''.tar.'' @ w \<and> w \<noteq> [] \<and> list_all isWordChar w)"
    and d: "name = pre @ ''.'' @ e \<and> CHR ''.'' \<notin> set e"
  from n have "tarExtMatcherExec name = None" by (rule iffD2 [OF exec_none_iff])
  with d show "anonymise settings env name = anonymiseName settings env @ ''.'' @ e"
    using ext_last_dot [of pre e] by (simp add: anonymise_def)
next
  assume "CHR ''.'' \<notin> set name"
  then show "anonymise settings env name = anonymiseName settings env"
    by (simp add: anonymise_def ext_no_dot)
qed

theorem anonymise_keeps_extension_witness:
  "anonymise \<lparr>methodSetting = Some Consistent, randomisedLength = 7, consistent = ''image''\<rparr>
      \<lparr>randomIndex = (\<lambda>k. k), dateNow = 0, performanceNowFloor = 0\<rparr> ''backup.tar.gz'' = ''image.tar.gz'' \<and>
   anonymise \<lparr>methodSetting = Some Consistent, randomisedLength = 7, consistent = ''image''\<rparr>
      \<lparr>randomIndex = (\<lambda>k. k), dateNow = 0, performanceNowFloor = 0\<rparr> ''photo.final.png'' = ''image.png'' \<and>
   anonymise \<lparr>methodSetting = Some Consistent, randomisedLength = 7, consistent = ''image''\<rparr>
      \<lparr>randomIndex = (\<lambda>k. k), dateNow = 0, performanceNowFloor = 0\<rparr> ''README'' = ''image''"
proof -
  let ?S = "\<lparr>methodSetting = Some Consistent, randomisedLength = 7, consistent = ''image''\<rparr>"
  let ?E = "\<lparr>randomIndex = (\<lambda>k. k), dateNow = 0, performanceNowFloor = 0\<rparr>"
  have nm: "anonymiseName ?S ?E = ''image''"
    by (simp add: anonymiseName_def)
  have a: "''backup.tar.gz'' = ''backup'' @ ''.tar.'' @ ''gz'' \<and> ''gz'' \<noteq> [] \<and> list_all isWordChar ''gz''"
    by (simp add: isWordChar_def)
  have b1: "\<not> (\<exists>pre w. ''photo.final.png'' = pre @ ''.tar.'' @ w \<and> w \<noteq> [] \<and> list_all isWordChar w)"
    unfolding exec_none_iff [symmetric]
    by (simp add: tarExtMatcherExec_def tarExtMatchesHere_def)
  have b2: "''photo.final.png'' = ''photo.final'' @ ''.'' @ ''png'' \<and> CHR ''.'' \<notin> set ''png''"
    by simp
  have c: "CHR ''.'' \<notin> set ''README''"
    by simp
  from anonymise_keeps_extension [of "''backup.tar.gz''" ?S ?E, THEN conjunct1, rule_format, OF a]
    anonymise_keeps_extension [of "''photo.final.png''" ?S ?E, THEN conjunct2, THEN conjunct1, rule_format, OF b1 b2]
    anonymise_keeps_extension [of "''README''" ?S ?E, THEN conjunct2, THEN conjunct2, rule_format, OF c]
  show ?thesis by (simp add: nm)
qed

text \<open>
  C10. For every user object, \<open>getUniqueUsername\<close> returns the user's \<open>username\<close> when the
  discriminator is the string \<open>"0"\<close>, and the user's \<open>tag\<close> otherwise.
\<close>

theorem getUniqueUsername_cases:
  "(discriminator user = ''0'' \<longrightarrow> getUniqueUsername user = username user) \<and>
   (discriminator user \<noteq> ''0'' \<longrightarrow> getUniqueUsername user = tag user)"
  by (simp add: getUniqueUsername_def)

theorem getUniqueUsername_cases_witness:
  "getUniqueUsername \<lparr>username = ''ven'', discriminator = ''0'', tag = ''ven#0''\<rparr> = ''ven'' \<and>
   getUniqueUsername \<lparr>username = ''ven'', discriminator = ''1234'', tag = ''ven#1234''\<rparr> = ''ven#1234''"
  using getUniqueUsername_cases [of "\<lparr>username = ''ven'', discriminator = ''0'', tag = ''ven#0''\<rparr>"]
    getUniqueUsername_cases [of "\<lparr>username = ''ven'', discriminator = ''1234'', tag = ''ven#1234''\<rparr>"]
  by simp

end
